theory Spec2Isabelle
  imports Main
begin

section \<open>JavaScript values\<close>

text \<open>
  The scalar values a row field, a literal of a query or an index key can hold.
  Numbers are the integers and \<open>NaN\<close>: numerals with a fractional part or an exponent,
  the infinities and negative zero need floating point and are outside this development,
  and so are integers of 22 digits and more, which \<open>String\<close> prints with an exponent.
  Strings are lists of 8-bit characters, read as ASCII: the white space and the case
  mappings of characters beyond ASCII are not modelled.
\<close>

datatype jsval = JUndefined | JNull | JBool bool | JNum int | JNaN | JStr string

text \<open>An object is the list of its own properties in insertion order.\<close>

type_synonym row = "(string \<times> jsval) list"

definition objGet :: "row \<Rightarrow> string \<Rightarrow> jsval" where
  "objGet r k = (case map_of r k of None \<Rightarrow> JUndefined | Some v \<Rightarrow> v)"

primrec objSet :: "'k \<Rightarrow> 'v \<Rightarrow> ('k \<times> 'v) list \<Rightarrow> ('k \<times> 'v) list" where
  "objSet k v [] = [(k, v)]"
| "objSet k v (p # ps) = (if fst p = k then (k, v) # ps else p # objSet k v ps)"

definition isNullish :: "jsval \<Rightarrow> bool" where
  "isNullish v = (v = JNull \<or> v = JUndefined)"

subsection \<open>Strings\<close>

definition isSpace :: "char \<Rightarrow> bool" where
  "isSpace c = (c \<in> set [CHR '' '', CHR 0x09, CHR 0x0A, CHR 0x0B, CHR 0x0C, CHR 0x0D])"

definition isDigit :: "char \<Rightarrow> bool" where
  "isDigit c = (c \<in> set ''0123456789'')"

definition isWordChar :: "char \<Rightarrow> bool" where
  "isWordChar c = (c \<in> set
     ''abcdefghijklmnopqrstuvwxyzABCDEFGHIJKLMNOPQRSTUVWXYZ0123456789_'')"

definition toUpperChar :: "char \<Rightarrow> char" where
  "toUpperChar c = (case map_of (zip ''abcdefghijklmnopqrstuvwxyz''
       ''ABCDEFGHIJKLMNOPQRSTUVWXYZ'') c of None \<Rightarrow> c | Some u \<Rightarrow> u)"

definition toLowerChar :: "char \<Rightarrow> char" where
  "toLowerChar c = (case map_of (zip ''ABCDEFGHIJKLMNOPQRSTUVWXYZ''
       ''abcdefghijklmnopqrstuvwxyz'') c of None \<Rightarrow> c | Some l \<Rightarrow> l)"

definition toUpperCase :: "string \<Rightarrow> string" where
  "toUpperCase s = map toUpperChar s"

definition toLowerCase :: "string \<Rightarrow> string" where
  "toLowerCase s = map toLowerChar s"

definition trimStart :: "string \<Rightarrow> string" where
  "trimStart s = dropWhile isSpace s"

definition trim :: "string \<Rightarrow> string" where
  "trim s = rev (dropWhile isSpace (rev (dropWhile isSpace s)))"

definition startsWith :: "string \<Rightarrow> string \<Rightarrow> bool" where
  "startsWith s p = (take (length p) s = p)"

definition endsWith :: "string \<Rightarrow> string \<Rightarrow> bool" where
  "endsWith s p = (length p \<le> length s \<and> drop (length s - length p) s = p)"

fun includesStr :: "string \<Rightarrow> string \<Rightarrow> bool" where
  "includesStr [] sub = (sub = [])"
| "includesStr (c # cs) sub = (startsWith (c # cs) sub \<or> includesStr cs sub)"

text \<open>
  \<open>s.split(sep)\<close> for a string separator: the pieces between the successive
  occurrences of \<open>sep\<close>, found from left to right without overlap. \<open>acc\<close> holds the
  current piece, reversed. An empty separator splits between all characters.
\<close>

function splitAcc :: "string \<Rightarrow> string \<Rightarrow> string \<Rightarrow> string list" where
  "splitAcc sep acc [] = [rev acc]"
| "splitAcc sep acc (c # cs) =
     (if sep \<noteq> [] \<and> startsWith (c # cs) sep
      then rev acc # splitAcc sep [] (drop (length sep) (c # cs))
      else splitAcc sep (c # acc) cs)"
  by pat_completeness auto
termination
  by (relation "measure (\<lambda>(sep, acc, s). length s)") auto

definition splitStr :: "string \<Rightarrow> string \<Rightarrow> string list" where
  "splitStr s sep = (if sep = [] then map (\<lambda>c. [c]) s else splitAcc sep [] s)"

text \<open>\<open>s.slice(1, -1)\<close>: the string without its first and its last character.\<close>

definition slice1m1 :: "string \<Rightarrow> string" where
  "slice1m1 s = butlast (tl s)"

subsection \<open>Numbers and strings\<close>

definition digitVal :: "char \<Rightarrow> int" where
  "digitVal c = (case map_of (zip ''0123456789'' [0, 1, 2, 3, 4, 5, 6, 7, 8, 9]) c of
     None \<Rightarrow> 0 | Some d \<Rightarrow> d)"

definition digitsVal :: "string \<Rightarrow> int" where
  "digitsVal ds = foldl (\<lambda>a c. 10 * a + digitVal c) 0 ds"

text \<open>
  \<open>parseInt(s, 10)\<close> on a string: leading white space is skipped, a sign is read, and the
  longest run of decimal digits that follows is the value; no digit gives \<open>NaN\<close>.
\<close>

definition parseIntStr :: "string \<Rightarrow> jsval" where
  "parseIntStr s =
     (let t = trimStart s;
          neg = (t \<noteq> [] \<and> hd t = CHR ''-'');
          u = (if t \<noteq> [] \<and> (hd t = CHR ''-'' \<or> hd t = CHR ''+'') then tl t else t);
          ds = takeWhile isDigit u
      in if ds = [] then JNaN else JNum (if neg then - digitsVal ds else digitsVal ds))"

text \<open>
  \<open>Number(s)\<close> on a string, \<open>None\<close> for \<open>NaN\<close>: the trimmed string is empty (zero) or
  a signed run of decimal digits. The numerals of JavaScript with a fraction, an
  exponent or a radix prefix, and \<open>Infinity\<close>, are outside the integer fragment and
  count as \<open>NaN\<close> here.
\<close>

definition toNumberStr :: "string \<Rightarrow> int option" where
  "toNumberStr s =
     (let t = trim s;
          neg = (t \<noteq> [] \<and> hd t = CHR ''-'');
          u = (if t \<noteq> [] \<and> (hd t = CHR ''-'' \<or> hd t = CHR ''+'') then tl t else t)
      in if t = [] then Some 0
         else if u \<noteq> [] \<and> list_all isDigit u
         then Some (if neg then - digitsVal u else digitsVal u)
         else None)"

text \<open>
  \<open>parseFloat(s)\<close> on a string, within the integer fragment: the signed run of digits
  at the start. A fraction or exponent that follows is not read, and a numeral that
  starts with the decimal point, or \<open>Infinity\<close>, is not recognised.
\<close>

definition parseFloatStr :: "string \<Rightarrow> jsval" where
  "parseFloatStr s = parseIntStr s"

text \<open>The decimal digits of a natural number.\<close>

function showNat :: "nat \<Rightarrow> string" where
  "showNat n =
     (if n < 10 then [''0123456789'' ! n]
      else showNat (n div 10) @ [''0123456789'' ! (n mod 10)])"
  by pat_completeness auto
termination
  by (relation "measure (\<lambda>n. n)") auto

declare showNat.simps [simp del]

definition showInt :: "int \<Rightarrow> string" where
  "showInt i = (if i < 0 then CHR ''-'' # showNat (nat (- i)) else showNat (nat i))"

text \<open>\<open>String(v)\<close>, also the text a template literal inserts for \<open>v\<close>.\<close>

fun toString :: "jsval \<Rightarrow> string" where
  "toString JUndefined = ''undefined''"
| "toString JNull = ''null''"
| "toString (JBool b) = (if b then ''true'' else ''false'')"
| "toString (JNum n) = showInt n"
| "toString JNaN = ''NaN''"
| "toString (JStr s) = s"

text \<open>\<open>Number(v)\<close>, \<open>None\<close> for \<open>NaN\<close>.\<close>

fun toNumber :: "jsval \<Rightarrow> int option" where
  "toNumber JUndefined = None"
| "toNumber JNull = Some 0"
| "toNumber (JBool b) = Some (if b then 1 else 0)"
| "toNumber (JNum n) = Some n"
| "toNumber JNaN = None"
| "toNumber (JStr s) = toNumberStr s"

definition parseInt :: "jsval \<Rightarrow> jsval" where
  "parseInt v = parseIntStr (toString v)"

definition parseFloat :: "jsval \<Rightarrow> jsval" where
  "parseFloat v = parseFloatStr (toString v)"

subsection \<open>Equality and order\<close>

text \<open>\<open>a === b\<close>: equal values of one type, and \<open>NaN\<close> differs from itself.\<close>

definition strictEq :: "jsval \<Rightarrow> jsval \<Rightarrow> bool" where
  "strictEq a b = (a = b \<and> a \<noteq> JNaN)"

text \<open>
  \<open>a == b\<close>: \<open>null\<close> and \<open>undefined\<close> equal each other and nothing else, two strings
  are compared as strings, and every other pair of scalars is compared as numbers.
\<close>

definition looseEq :: "jsval \<Rightarrow> jsval \<Rightarrow> bool" where
  "looseEq a b =
     (if isNullish a \<or> isNullish b then isNullish a \<and> isNullish b
      else case (a, b) of
        (JStr x, JStr y) \<Rightarrow> x = y
      | _ \<Rightarrow> (case (toNumber a, toNumber b) of
                (Some m, Some n) \<Rightarrow> m = n
              | _ \<Rightarrow> False))"

fun strLess :: "string \<Rightarrow> string \<Rightarrow> bool" where
  "strLess s [] = False"
| "strLess [] (y # ys) = True"
| "strLess (x # xs) (y # ys) =
     ((of_char x :: nat) < of_char y \<or> (x = y \<and> strLess xs ys))"

text \<open>
  \<open>a < b\<close>: two strings by code units, everything else as numbers; a comparison with
  \<open>NaN\<close> is false. \<open>a <= b\<close> is \<open>!(b < a)\<close> unless a side is \<open>NaN\<close>.
\<close>

definition jsLess :: "jsval \<Rightarrow> jsval \<Rightarrow> bool" where
  "jsLess a b =
     (case (a, b) of
        (JStr x, JStr y) \<Rightarrow> strLess x y
      | _ \<Rightarrow> (case (toNumber a, toNumber b) of
                (Some m, Some n) \<Rightarrow> m < n
              | _ \<Rightarrow> False))"

definition jsLessEq :: "jsval \<Rightarrow> jsval \<Rightarrow> bool" where
  "jsLessEq a b =
     (case (a, b) of
        (JStr x, JStr y) \<Rightarrow> \<not> strLess y x
      | _ \<Rightarrow> (case (toNumber a, toNumber b) of
                (Some m, Some n) \<Rightarrow> m \<le> n
              | _ \<Rightarrow> False))"

section \<open>Errors\<close>

text \<open>Every exception of the program is an \<open>Error\<close> object carrying its message.\<close>

datatype error = Error string

text \<open>\<open>xs.map(f)\<close> for a callback that may throw: the first error ends the loop.\<close>

fun mapRows :: "('a \<Rightarrow> error + 'b) \<Rightarrow> 'a list \<Rightarrow> error + 'b list" where
  "mapRows f [] = Inr []"
| "mapRows f (x # xs) =
     (case f x of
        Inl e \<Rightarrow> Inl e
      | Inr y \<Rightarrow> (case mapRows f xs of Inl e \<Rightarrow> Inl e | Inr ys \<Rightarrow> Inr (y # ys)))"

section \<open>The parser of conditions\<close>

datatype condition =
    Comparison (column: string) (operator: string) (cvalue: jsval)
  | And "condition list"
  | Or "condition list"

text \<open>
  A literal: quoted string, boolean, null, number, or else the raw token. The test
  \<open>!isNaN(val)\<close> is \<open>Number(val)\<close> not being \<open>NaN\<close>; within the integer fragment a
  token with a decimal point is not a number and is kept as text.
\<close>

definition parseValue :: "string \<Rightarrow> jsval" where
  "parseValue val0 =
     (let val = trim val0
      in if (startsWith val [CHR 0x27] \<and> endsWith val [CHR 0x27])
            \<or> (startsWith val [CHR 0x22] \<and> endsWith val [CHR 0x22])
         then JStr (slice1m1 val)
         else if toLowerCase val = ''true'' then JBool True
         else if toLowerCase val = ''false'' then JBool False
         else if toLowerCase val = ''null'' then JNull
         else if toNumberStr val \<noteq> None
         then (if includesStr val ''.'' then parseFloatStr val else parseIntStr val)
         else JStr val)"

definition operators :: "string list" where
  "operators = [''>='', ''<='', ''!='', ''='', ''>'', ''<'']"

text \<open>
  The loop of \<open>parseSimpleCondition\<close> over the operators that are still to be tried.
  \<open>parts[1]\<close> is \<open>undefined\<close> when the split has a single piece, and \<open>parseValue\<close>
  then fails on \<open>val.trim()\<close>.
\<close>

fun scanOperators :: "string list \<Rightarrow> string \<Rightarrow> error + condition" where
  "scanOperators [] condStr = Inl (Error (''Invalid condition: '' @ condStr))"
| "scanOperators (op # ops) condStr =
     (if includesStr condStr op
      then (case map trim (splitStr condStr op) of
              p0 # p1 # _ \<Rightarrow> Inr (Comparison p0 op (parseValue p1))
            | _ \<Rightarrow> Inl (Error
                ''Cannot read properties of undefined (reading 'trim')''))
      else scanOperators ops condStr)"

text \<open>
  The text before the first occurrence of \<open>sep\<close> in a string and the text after that
  occurrence; a string without \<open>sep\<close> is cut at its end.
\<close>

fun cutAt :: "string \<Rightarrow> string \<Rightarrow> string \<times> string" where
  "cutAt sep [] = ([], [])"
| "cutAt sep (c # cs) =
     (if startsWith (c # cs) sep then ([], drop (length sep) (c # cs))
      else (c # fst (cutAt sep cs), snd (cutAt sep cs)))"

definition parseSimpleCondition :: "string \<Rightarrow> error + condition" where
  "parseSimpleCondition condStr = scanOperators operators condStr"

text \<open>
  A match of \<open>/\s+KW\s+/i\<close> at the start of a string, for the keyword \<open>kw\<close> in
  upper case: the text after the match. Both runs of white space are taken whole, since
  after a shorter first run the keyword cannot follow, and nothing follows the second.
\<close>

definition matchKwAt :: "string \<Rightarrow> string \<Rightarrow> string option" where
  "matchKwAt kw s =
     (case s of
        [] \<Rightarrow> None
      | c # cs \<Rightarrow>
          if \<not> isSpace c then None
          else let r1 = dropWhile isSpace cs
          in if toUpperCase (take (length kw) r1) \<noteq> kw then None
             else let r2 = drop (length kw) r1
             in if r2 = [] \<or> \<not> isSpace (hd r2) then None
                else Some (dropWhile isSpace r2))"

text \<open>
  \<open>s.split(/\s+KW\s+/i)\<close>: a match is tried at every position from the end of the
  previous match on, and the pieces between the matches are returned; \<open>acc\<close> holds
  the current piece, reversed.
\<close>

function splitKw :: "string \<Rightarrow> string \<Rightarrow> string \<Rightarrow> string list" where
  "splitKw kw acc [] = [rev acc]"
| "splitKw kw acc (c # cs) =
     (case matchKwAt kw (c # cs) of
        Some rest \<Rightarrow> rev acc # splitKw kw [] rest
      | None \<Rightarrow> splitKw kw (c # acc) cs)"
  by pat_completeness auto
termination
proof (relation "measure (\<lambda>(kw, acc, s). length s)", simp_all)
  fix kw c cs rest
  assume m: "matchKwAt kw (c # cs) = Some rest"
  have a: "length (dropWhile isSpace cs) \<le> length cs" by (rule length_dropWhile_le)
  have b: "length (drop (length kw) (dropWhile isSpace cs)) \<le> length (dropWhile isSpace cs)"
    by simp
  have c: "length (dropWhile isSpace (drop (length kw) (dropWhile isSpace cs)))
             \<le> length (drop (length kw) (dropWhile isSpace cs))"
    by (rule length_dropWhile_le)
  have d: "rest = dropWhile isSpace (drop (length kw) (dropWhile isSpace cs))"
    using m by (simp add: matchKwAt_def Let_def split: if_splits)
  have "length rest \<le> length cs" unfolding d using a b c by linarith
  then show "length rest < Suc (length cs)" by simp
qed

text \<open>
  A WHERE clause: a chain of simple conditions joined by AND, else one joined by OR,
  else a single simple condition.
\<close>

definition parseWhereClause :: "string \<Rightarrow> error + condition" where
  "parseWhereClause whereStr =
     (if includesStr (toUpperCase whereStr) '' AND ''
      then (case mapRows (\<lambda>p. parseSimpleCondition (trim p)) (splitKw ''AND'' [] whereStr) of
              Inl e \<Rightarrow> Inl e
            | Inr conditions \<Rightarrow> Inr (And conditions))
      else if includesStr (toUpperCase whereStr) '' OR ''
      then (case mapRows (\<lambda>p. parseSimpleCondition (trim p)) (splitKw ''OR'' [] whereStr) of
              Inl e \<Rightarrow> Inl e
            | Inr conditions \<Rightarrow> Inr (Or conditions))
      else parseSimpleCondition whereStr)"

section \<open>Schemas, rows on disk and the state of a database\<close>

record column =
  name :: string
  ctype :: string
  constraints :: "string list"

record schema =
  columns :: "column list"
  primaryKey :: "string option"
  uniqueKeys :: "string list"

text \<open>Time stamps (\<open>new Date().toISOString()\<close>) are milliseconds since the epoch.\<close>

record metadata = schema +
  tableName :: string
  createdAt :: nat

text \<open>
  A \<open>Map\<close> from column values to row positions, in insertion order. Its keys are
  compared by \<open>SameValueZero\<close>, which on the values above is equality (\<open>NaN\<close> is a key
  like any other).
\<close>

type_synonym index = "(jsval \<times> nat list) list"

record indexData =
  idxTableName :: string
  idxColumnName :: string
  entries :: "(jsval \<times> nat list) list"
  idxCreatedAt :: nat

text \<open>
  The files of the data directory and the caches of one process. A table is the pair
  of files \<open>t.json\<close> (its rows) and \<open>t.meta.json\<close>; table names have no dot, so the
  two families of files are kept apart. Index files are addressed by their path below
  the data directory. \<open>clock\<close> gives the time read by the k-th call of \<open>Date\<close> and
  \<open>reads\<close> counts the calls made so far.
\<close>

record db =
  metaFiles :: "string \<rightharpoonup> metadata"
  dataFiles :: "string \<rightharpoonup> row list"
  indexFiles :: "string \<rightharpoonup> indexData"
  indexes :: "string \<rightharpoonup> index"
  tables :: "string \<rightharpoonup> metadata"
  clock :: "nat \<Rightarrow> nat"
  reads :: nat

definition dateNow :: "db \<Rightarrow> nat \<times> db" where
  "dateNow st = (clock st (reads st), st\<lparr>reads := Suc (reads st)\<rparr>)"

text \<open>A string that may be \<open>null\<close> is truthy when it is a non-empty string.\<close>

fun truthy :: "string option \<Rightarrow> bool" where
  "truthy None = False"
| "truthy (Some s) = (s \<noteq> [])"

definition quoted :: "string \<Rightarrow> string" where
  "quoted s = [CHR 0x27] @ s @ [CHR 0x27]"

fun joinStr :: "string \<Rightarrow> string list \<Rightarrow> string" where
  "joinStr sep [] = []"
| "joinStr sep [x] = x"
| "joinStr sep (x # y # ys) = x @ sep @ joinStr sep (y # ys)"

subsection \<open>JSON\<close>

text \<open>
  What \<open>JSON.parse(JSON.stringify(x))\<close> returns: \<open>NaN\<close> is written as \<open>null\<close>, a
  property whose value is \<open>undefined\<close> is left out of an object, and \<open>undefined\<close> in an
  array is written as \<open>null\<close>.
\<close>

fun jsonValue :: "jsval \<Rightarrow> jsval" where
  "jsonValue JNaN = JNull"
| "jsonValue JUndefined = JNull"
| "jsonValue v = v"

definition jsonRow :: "row \<Rightarrow> row" where
  "jsonRow r = map (\<lambda>(k, v). (k, jsonValue v)) (filter (\<lambda>(k, v). v \<noteq> JUndefined) r)"

definition jsonEntries :: "(jsval \<times> nat list) list \<Rightarrow> (jsval \<times> nat list) list" where
  "jsonEntries es = map (\<lambda>(k, ps). (jsonValue k, ps)) es"

section \<open>The storage engine\<close>

definition tableExists :: "db \<Rightarrow> string \<Rightarrow> bool" where
  "tableExists st tn = (dataFiles st tn \<noteq> None \<and> metaFiles st tn \<noteq> None)"

definition notExistsError :: "string \<Rightarrow> error" where
  "notExistsError tn = Error (''Table '' @ quoted tn @ '' does not exist'')"

definition storageCreateTable :: "string \<Rightarrow> schema \<Rightarrow> db \<Rightarrow> (error + metadata) \<times> db" where
  "storageCreateTable tn sch st =
     (if tableExists st tn
      then (Inl (Error (''Table '' @ quoted tn @ '' already exists'')), st)
      else let (t, st1) = dateNow st;
               md = \<lparr>columns = columns sch,
                     primaryKey = (if truthy (primaryKey sch) then primaryKey sch else None),
                     uniqueKeys = uniqueKeys sch,
                     tableName = tn, createdAt = t\<rparr>
           in (Inr md, st1\<lparr>metaFiles := (metaFiles st1)(tn \<mapsto> md),
                           dataFiles := (dataFiles st1)(tn \<mapsto> [])\<rparr>))"

definition getTableMetadata :: "string \<Rightarrow> db \<Rightarrow> error + metadata" where
  "getTableMetadata tn st =
     (if \<not> tableExists st tn then Inl (notExistsError tn)
      else case metaFiles st tn of
             Some md \<Rightarrow> Inr md
           | None \<Rightarrow> Inl (notExistsError tn))"

text \<open>The rows are read with \<open>JSON.parse\<close>, so they are JSON values.\<close>

definition loadTableData :: "string \<Rightarrow> db \<Rightarrow> error + row list" where
  "loadTableData tn st =
     (if \<not> tableExists st tn then Inl (notExistsError tn)
      else case dataFiles st tn of
             Some rs \<Rightarrow> Inr (map jsonRow rs)
           | None \<Rightarrow> Inl (notExistsError tn))"

definition saveTableData :: "string \<Rightarrow> row list \<Rightarrow> db \<Rightarrow> (error + unit) \<times> db" where
  "saveTableData tn rs st =
     (if \<not> tableExists st tn then (Inl (notExistsError tn), st)
      else (Inr (), st\<lparr>dataFiles := (dataFiles st)(tn \<mapsto> map jsonRow rs)\<rparr>))"

definition insertRow :: "string \<Rightarrow> row \<Rightarrow> db \<Rightarrow> (error + row) \<times> db" where
  "insertRow tn r st =
     (case loadTableData tn st of
        Inl e \<Rightarrow> (Inl e, st)
      | Inr rs \<Rightarrow>
          (case saveTableData tn (rs @ [r]) st of
             (Inl e, st1) \<Rightarrow> (Inl e, st1)
           | (Inr u, st1) \<Rightarrow> (Inr r, st1)))"

definition storageDropTable :: "string \<Rightarrow> db \<Rightarrow> (error + unit) \<times> db" where
  "storageDropTable tn st =
     (if \<not> tableExists st tn then (Inl (notExistsError tn), st)
      else (Inr (), st\<lparr>dataFiles := (dataFiles st)(tn := None),
                        metaFiles := (metaFiles st)(tn := None)\<rparr>))"

section \<open>Tables: validation and row operations\<close>

definition validateType :: "jsval \<Rightarrow> string \<Rightarrow> bool" where
  "validateType v ty =
     (let u = toUpperCase ty
      in if u = ''INTEGER'' \<or> u = ''INT'' then toNumber v \<noteq> None
         else if u = ''TEXT'' \<or> u = ''VARCHAR'' then (case v of JStr s \<Rightarrow> True | _ \<Rightarrow> False)
         else if u = ''BOOLEAN'' \<or> u = ''BOOL''
         then (case v of JBool b \<Rightarrow> True | _ \<Rightarrow> v = JStr ''true'' \<or> v = JStr ''false'')
         else if u = ''FLOAT'' \<or> u = ''REAL'' then parseFloat v \<noteq> JNaN
         else True)"

definition coerceType :: "jsval \<Rightarrow> string \<Rightarrow> jsval" where
  "coerceType v ty =
     (if isNullish v then JNull
      else let u = toUpperCase ty
      in if u = ''INTEGER'' \<or> u = ''INT'' then parseInt v
         else if u = ''TEXT'' \<or> u = ''VARCHAR'' then JStr (toString v)
         else if u = ''BOOLEAN'' \<or> u = ''BOOL''
         then (case v of JBool b \<Rightarrow> v
               | _ \<Rightarrow> JBool (v = JStr ''true'' \<or> v = JStr ''1'' \<or> v = JNum 1))
         else if u = ''FLOAT'' \<or> u = ''REAL'' then parseFloat v
         else v)"

text \<open>The messages \<open>validateRow\<close> collects, column by column.\<close>

fun rowErrors :: "column list \<Rightarrow> row \<Rightarrow> string list" where
  "rowErrors [] r = []"
| "rowErrors (c # cs) r =
     (let v = objGet r (name c)
      in (if ''NOT_NULL'' \<in> set (constraints c) \<and> isNullish v
          then [''Column '' @ quoted (name c) @ '' cannot be null''] else [])
         @ (if \<not> isNullish v \<and> \<not> validateType v (ctype c)
            then [''Invalid type for column '' @ quoted (name c) @ ''. Expected '' @ ctype c]
            else [])
         @ rowErrors cs r)"

definition validateRow :: "metadata \<Rightarrow> row \<Rightarrow> error + bool" where
  "validateRow md r =
     (let errors = rowErrors (columns md) r
      in if errors \<noteq> [] then Inl (Error (''Validation failed: '' @ joinStr '', '' errors))
         else Inr True)"

definition pkNullError :: "string \<Rightarrow> error" where
  "pkNullError pk = Error (''Primary key '' @ quoted pk @ '' cannot be null'')"

definition duplicatePkError :: "jsval \<Rightarrow> error" where
  "duplicatePkError v = Error (''Duplicate primary key value: '' @ toString v)"

definition duplicateUniqueError :: "string \<Rightarrow> jsval \<Rightarrow> error" where
  "duplicateUniqueError uk v =
     Error (''Duplicate unique key value for '' @ quoted uk @ '': '' @ toString v)"

definition validatePrimaryKey :: "metadata \<Rightarrow> row \<Rightarrow> row list \<Rightarrow> error + bool" where
  "validatePrimaryKey md r existingRows =
     (case primaryKey md of
        None \<Rightarrow> Inr True
      | Some pkColumn \<Rightarrow>
          if pkColumn = [] then Inr True
          else let pkValue = objGet r pkColumn
               in if isNullish pkValue then Inl (pkNullError pkColumn)
                  else (case find (\<lambda>x. strictEq (objGet x pkColumn) pkValue) existingRows of
                          Some duplicate \<Rightarrow> Inl (duplicatePkError pkValue)
                        | None \<Rightarrow> Inr True))"

fun checkUniqueKeys :: "string list \<Rightarrow> row \<Rightarrow> row list \<Rightarrow> error + bool" where
  "checkUniqueKeys [] r existingRows = Inr True"
| "checkUniqueKeys (uniqueKey # uks) r existingRows =
     (let v = objGet r uniqueKey
      in if \<not> isNullish v
            \<and> find (\<lambda>x. strictEq (objGet x uniqueKey) v) existingRows \<noteq> None
         then Inl (duplicateUniqueError uniqueKey v)
         else checkUniqueKeys uks r existingRows)"

definition validateUniqueKeys :: "metadata \<Rightarrow> row \<Rightarrow> row list \<Rightarrow> error + bool" where
  "validateUniqueKeys md r existingRows =
     (if uniqueKeys md = [] then Inr True
      else checkUniqueKeys (uniqueKeys md) r existingRows)"

definition prepareRow :: "metadata \<Rightarrow> row \<Rightarrow> row" where
  "prepareRow md r =
     foldl (\<lambda>preparedRow c.
              let v = objGet r (name c)
              in if v \<noteq> JUndefined then objSet (name c) (coerceType v (ctype c)) preparedRow
                 else objSet (name c) JNull preparedRow)
           [] (columns md)"

definition tableInsert :: "string \<Rightarrow> metadata \<Rightarrow> row \<Rightarrow> db \<Rightarrow> (error + row) \<times> db" where
  "tableInsert tn md r st =
     (let preparedRow = prepareRow md r
      in case loadTableData tn st of
           Inl e \<Rightarrow> (Inl e, st)
         | Inr existingRows \<Rightarrow>
             (case validateRow md preparedRow of
                Inl e \<Rightarrow> (Inl e, st)
              | Inr ok1 \<Rightarrow>
                  (case validatePrimaryKey md preparedRow existingRows of
                     Inl e \<Rightarrow> (Inl e, st)
                   | Inr ok2 \<Rightarrow>
                       (case validateUniqueKeys md preparedRow existingRows of
                          Inl e \<Rightarrow> (Inl e, st)
                        | Inr ok3 \<Rightarrow> insertRow tn preparedRow st))))"

definition getAll :: "string \<Rightarrow> db \<Rightarrow> error + row list" where
  "getAll tn st = loadTableData tn st"

text \<open>\<open>{ ...row, ...updates }\<close>: the properties of both, in order, later ones winning.\<close>

definition spread :: "row \<Rightarrow> row \<Rightarrow> row" where
  "spread r updates = foldl (\<lambda>acc (k, v). objSet k v acc) [] (r @ updates)"

text \<open>
  The \<open>map\<close> of \<open>update\<close>: the new rows and the number of rows changed, or the error
  the condition raises at the first row where it does.
\<close>

fun updateRows :: "row \<Rightarrow> (row \<Rightarrow> error + bool) option \<Rightarrow> row list \<Rightarrow> error + (row list \<times> nat)" where
  "updateRows updates cond [] = Inr ([], 0)"
| "updateRows updates cond (r # rs) =
     (case (case cond of None \<Rightarrow> Inr True | Some c \<Rightarrow> c r) of
        Inl e \<Rightarrow> Inl e
      | Inr hit \<Rightarrow>
          (case updateRows updates cond rs of
             Inl e \<Rightarrow> Inl e
           | Inr (newRows, updatedCount) \<Rightarrow>
               if hit then Inr (spread r updates # newRows, Suc updatedCount)
               else Inr (r # newRows, updatedCount)))"

definition tableUpdate :: "string \<Rightarrow> row \<Rightarrow> (row \<Rightarrow> error + bool) option \<Rightarrow> db \<Rightarrow> (error + nat) \<times> db" where
  "tableUpdate tn updates cond st =
     (case loadTableData tn st of
        Inl e \<Rightarrow> (Inl e, st)
      | Inr rs \<Rightarrow>
          (case updateRows updates cond rs of
             Inl e \<Rightarrow> (Inl e, st)
           | Inr (newRows, updatedCount) \<Rightarrow>
               (case saveTableData tn newRows st of
                  (Inl e, st1) \<Rightarrow> (Inl e, st1)
                | (Inr u, st1) \<Rightarrow> (Inr updatedCount, st1))))"

text \<open>The \<open>filter\<close> of \<open>deleteRows\<close>: the rows for which the condition is false.\<close>

fun keepRows :: "(row \<Rightarrow> error + bool) \<Rightarrow> row list \<Rightarrow> error + row list" where
  "keepRows cond [] = Inr []"
| "keepRows cond (r # rs) =
     (case cond r of
        Inl e \<Rightarrow> Inl e
      | Inr hit \<Rightarrow>
          (case keepRows cond rs of
             Inl e \<Rightarrow> Inl e
           | Inr newRows \<Rightarrow> Inr (if hit then newRows else r # newRows)))"

definition deleteRows :: "string \<Rightarrow> (row \<Rightarrow> error + bool) \<Rightarrow> db \<Rightarrow> (error + nat) \<times> db" where
  "deleteRows tn cond st =
     (case loadTableData tn st of
        Inl e \<Rightarrow> (Inl e, st)
      | Inr rs \<Rightarrow>
          (case keepRows cond rs of
             Inl e \<Rightarrow> (Inl e, st)
           | Inr newRows \<Rightarrow>
               (case saveTableData tn newRows st of
                  (Inl e, st1) \<Rightarrow> (Inl e, st1)
                | (Inr u, st1) \<Rightarrow> (Inr (length rs - length newRows), st1))))"

section \<open>The index manager\<close>

definition getIndexPath :: "string \<Rightarrow> string \<Rightarrow> string" where
  "getIndexPath tn cn = tn @ ''_'' @ cn @ ''.idx.json''"

definition cacheKey :: "string \<Rightarrow> string \<Rightarrow> string" where
  "cacheKey tn cn = tn @ ''.'' @ cn"

text \<open>
  One step of the loop of \<open>buildIndex\<close>: a value that is not yet a key is entered with
  no positions, then the position is pushed to the value's entry.
\<close>

definition indexAdd :: "index \<Rightarrow> jsval \<Rightarrow> nat \<Rightarrow> index" where
  "indexAdd ix v rowIndex =
     (let ix1 = (if map_of ix v = None then objSet v [] ix else ix)
      in case map_of ix1 v of
           Some ps \<Rightarrow> objSet v (ps @ [rowIndex]) ix1
         | None \<Rightarrow> ix1)"

definition indexOf :: "string \<Rightarrow> row list \<Rightarrow> index" where
  "indexOf cn rs =
     foldl (\<lambda>ix (rowIndex, r).
              let v = objGet r cn
              in if \<not> isNullish v then indexAdd ix v rowIndex else ix)
           [] (zip [0 ..< length rs] rs)"

definition buildIndex :: "string \<Rightarrow> string \<Rightarrow> row list \<Rightarrow> db \<Rightarrow> index \<times> db" where
  "buildIndex tn cn rs st =
     (let ix = indexOf cn rs;
          (t, st1) = dateNow st;
          d = \<lparr>idxTableName = tn, idxColumnName = cn,
               entries = jsonEntries ix, idxCreatedAt = t\<rparr>
      in (ix, st1\<lparr>indexFiles := (indexFiles st1)(getIndexPath tn cn \<mapsto> d),
                   indexes := (indexes st1)(cacheKey tn cn \<mapsto> ix)\<rparr>))"

text \<open>\<open>new Map(entries)\<close>: the entries in order, a repeated key keeping its place.\<close>

definition mapOfEntries :: "(jsval \<times> nat list) list \<Rightarrow> index" where
  "mapOfEntries es = foldl (\<lambda>m (k, ps). objSet k ps m) [] es"

definition loadIndex :: "string \<Rightarrow> string \<Rightarrow> db \<Rightarrow> index option \<times> db" where
  "loadIndex tn cn st =
     (case indexes st (cacheKey tn cn) of
        Some ix \<Rightarrow> (Some ix, st)
      | None \<Rightarrow>
          (case indexFiles st (getIndexPath tn cn) of
             None \<Rightarrow> (None, st)
           | Some d \<Rightarrow>
               let ix = mapOfEntries (entries d)
               in (Some ix, st\<lparr>indexes := (indexes st)(cacheKey tn cn \<mapsto> ix)\<rparr>)))"

definition lookup :: "string \<Rightarrow> string \<Rightarrow> jsval \<Rightarrow> db \<Rightarrow> nat list option \<times> db" where
  "lookup tn cn v st =
     (case loadIndex tn cn st of
        (None, st1) \<Rightarrow> (None, st1)
      | (Some ix, st1) \<Rightarrow>
          (Some (case map_of ix v of Some ps \<Rightarrow> ps | None \<Rightarrow> []), st1))"

definition hasIndex :: "string \<Rightarrow> string \<Rightarrow> db \<Rightarrow> bool" where
  "hasIndex tn cn st = (indexFiles st (getIndexPath tn cn) \<noteq> None)"

definition dropIndex :: "string \<Rightarrow> string \<Rightarrow> db \<Rightarrow> db" where
  "dropIndex tn cn st =
     st\<lparr>indexFiles := (indexFiles st)(getIndexPath tn cn := None),
        indexes := (indexes st)(cacheKey tn cn := None)\<rparr>"

definition rebuildIndex :: "string \<Rightarrow> string \<Rightarrow> row list \<Rightarrow> db \<Rightarrow> index \<times> db" where
  "rebuildIndex tn cn rs st = buildIndex tn cn rs (dropIndex tn cn st)"

definition createDefaultIndexes :: "string \<Rightarrow> metadata \<Rightarrow> row list \<Rightarrow> db \<Rightarrow> db" where
  "createDefaultIndexes tn md rs st =
     (let st1 = (case primaryKey md of
                   Some pk \<Rightarrow> if pk \<noteq> [] then snd (buildIndex tn pk rs st) else st
                 | None \<Rightarrow> st)
      in foldl (\<lambda>s uniqueKey. snd (buildIndex tn uniqueKey rs s)) st1 (uniqueKeys md))"

section \<open>The database\<close>

definition createTableFunc :: "string \<Rightarrow> schema \<Rightarrow> db \<Rightarrow> (error + metadata) \<times> db" where
  "createTableFunc tn sch st =
     (case storageCreateTable tn sch st of
        (Inl e, st1) \<Rightarrow> (Inl e, st1)
      | (Inr md, st1) \<Rightarrow>
          (Inr md, createDefaultIndexes tn md [] (st1\<lparr>tables := (tables st1)(tn \<mapsto> md)\<rparr>)))"

definition getTable :: "string \<Rightarrow> db \<Rightarrow> (error + metadata) \<times> db" where
  "getTable tn st =
     (case tables st tn of
        Some md \<Rightarrow> (Inr md, st)
      | None \<Rightarrow>
          (case getTableMetadata tn st of
             Inl e \<Rightarrow> (Inl e, st)
           | Inr md \<Rightarrow> (Inr md, st\<lparr>tables := (tables st)(tn \<mapsto> md)\<rparr>)))"

definition dropTable :: "string \<Rightarrow> db \<Rightarrow> (error + unit) \<times> db" where
  "dropTable tn st =
     (case getTableMetadata tn st of
        Inl e \<Rightarrow> (Inl e, st)
      | Inr md \<Rightarrow>
          let st1 = (case primaryKey md of
                       Some pk \<Rightarrow> if pk \<noteq> [] then dropIndex tn pk st else st
                     | None \<Rightarrow> st);
              st2 = foldl (\<lambda>s uniqueKey. dropIndex tn uniqueKey s) st1 (uniqueKeys md)
          in (case storageDropTable tn st2 of
                (Inl e, st3) \<Rightarrow> (Inl e, st3)
              | (Inr u, st3) \<Rightarrow> (Inr (), st3\<lparr>tables := (tables st3)(tn := None)\<rparr>)))"

definition rebuildIndexes :: "string \<Rightarrow> db \<Rightarrow> (error + unit) \<times> db" where
  "rebuildIndexes tn st =
     (case getTableMetadata tn st of
        Inl e \<Rightarrow> (Inl e, st)
      | Inr md \<Rightarrow>
          (case loadTableData tn st of
             Inl e \<Rightarrow> (Inl e, st)
           | Inr rs \<Rightarrow>
               let st1 = (case primaryKey md of
                            Some pk \<Rightarrow> if pk \<noteq> [] then snd (rebuildIndex tn pk rs st) else st
                          | None \<Rightarrow> st)
               in (Inr (),
                   foldl (\<lambda>s uniqueKey. snd (rebuildIndex tn uniqueKey rs s)) st1
                     (uniqueKeys md))))"

section \<open>Queries and their results\<close>

datatype join =
  Join (joinTableName: string) (joinTableAlias: "string option") (joinOn: string)

text \<open>
  The parsed queries, one constructor for each \<open>type\<close> the parser produces:
  \<open>SelectQ columns tableName tableAlias join where\<close>, \<open>UpdateQ tableName updates where\<close>,
  and \<open>UnknownQ\<close> for any other \<open>type\<close> string.
\<close>

datatype ast =
    CreateTableQ string schema
  | InsertQ string row
  | SelectQ "string list" string "string option" "join option" "condition option"
  | UpdateQ string row "condition option"
  | DeleteQ string "condition option"
  | DropTableQ string
  | UnknownQ string

text \<open>
  The object a query returns; a field that is not set is \<open>None\<close>. An element of
  \<open>rows\<close> is \<open>None\<close> where the array holds \<open>undefined\<close>.
\<close>

record result =
  success :: bool
  rows :: "row option list option"
  count :: "nat option"
  message :: "string option"
  error :: "string option"
  row :: "row option"
  table :: "metadata option"

definition okResult :: result where
  "okResult = \<lparr>success = True, rows = None, count = None, message = None,
                error = None, row = None, table = None\<rparr>"

section \<open>The executor\<close>

text \<open>The \<open>switch\<close> of \<open>evaluateCondition\<close> on the operator.\<close>

definition compareValues :: "string \<Rightarrow> jsval \<Rightarrow> jsval \<Rightarrow> error + bool" where
  "compareValues op v compareValue =
     (if op = ''='' then Inr (looseEq v compareValue)
      else if op = ''!='' then Inr (\<not> looseEq v compareValue)
      else if op = ''>'' then Inr (jsLess compareValue v)
      else if op = ''<'' then Inr (jsLess v compareValue)
      else if op = ''>='' then Inr (jsLessEq compareValue v)
      else if op = ''<='' then Inr (jsLessEq v compareValue)
      else Inl (Error (''Unknown operator: '' @ op)))"

fun evaluateCondition :: "row \<Rightarrow> condition \<Rightarrow> error + bool"
  and everyCondition :: "row \<Rightarrow> condition list \<Rightarrow> error + bool"
  and someCondition :: "row \<Rightarrow> condition list \<Rightarrow> error + bool" where
  "evaluateCondition r (And cs) = everyCondition r cs"
| "evaluateCondition r (Or cs) = someCondition r cs"
| "evaluateCondition r (Comparison c op v) = compareValues op (objGet r c) v"
| "everyCondition r [] = Inr True"
| "everyCondition r (c # cs) =
     (case evaluateCondition r c of
        Inl e \<Rightarrow> Inl e
      | Inr b \<Rightarrow> if b then everyCondition r cs else Inr False)"
| "someCondition r [] = Inr False"
| "someCondition r (c # cs) =
     (case evaluateCondition r c of
        Inl e \<Rightarrow> Inl e
      | Inr b \<Rightarrow> if b then Inr True else someCondition r cs)"

text \<open>\<open>rows.filter((row) => evaluateCondition(row, whereClause))\<close>.\<close>

fun scanRows :: "condition \<Rightarrow> row list \<Rightarrow> error + row list" where
  "scanRows w [] = Inr []"
| "scanRows w (r # rs) =
     (case evaluateCondition r w of
        Inl e \<Rightarrow> Inl e
      | Inr b \<Rightarrow>
          (case scanRows w rs of
             Inl e \<Rightarrow> Inl e
           | Inr out \<Rightarrow> Inr (if b then r # out else out)))"

text \<open>\<open>rows[idx]\<close>, which is \<open>undefined\<close> past the end of the array.\<close>

definition rowAt :: "row list \<Rightarrow> nat \<Rightarrow> row option" where
  "rowAt rs idx = (if idx < length rs then Some (rs ! idx) else None)"

definition filterRows :: "row list \<Rightarrow> condition \<Rightarrow> string \<Rightarrow> db \<Rightarrow> (error + row option list) \<times> db" where
  "filterRows rs whereClause tn st =
     (let fullScan = (\<lambda>s. (case scanRows whereClause rs of
                               Inl e \<Rightarrow> (Inl e, s)
                             | Inr out \<Rightarrow> (Inr (map Some out), s)))
      in case whereClause of
           Comparison c op v \<Rightarrow>
             if c \<noteq> [] \<and> op = ''=''
             then (case lookup tn c v st of
                     (Some indices, st1) \<Rightarrow> (Inr (map (rowAt rs) indices), st1)
                   | (None, st1) \<Rightarrow> fullScan st1)
             else fullScan st
         | _ \<Rightarrow> fullScan st)"

text \<open>
  The projection of one row on the listed columns; reading a column of \<open>undefined\<close>
  is a type error.
\<close>

fun projectRow :: "string list \<Rightarrow> row option \<Rightarrow> error + row option" where
  "projectRow [] None = Inr (Some [])"
| "projectRow (col # cols) None =
     Inl (Error (''Cannot read properties of undefined (reading '' @ quoted col @ '')''))"
| "projectRow cols (Some r) =
     Inr (Some (foldl (\<lambda>projected col. objSet col (objGet r col) projected) [] cols))"

definition isStar :: "string list \<Rightarrow> bool" where
  "isStar cols = (case cols of [] \<Rightarrow> False | c # cs \<Rightarrow> c = ''*'')"

subsection \<open>Joins\<close>

text \<open>
  The first match of \<open>/(\w+)\.(\w+)\s*=\s*(\w+)\.(\w+)/\<close>. At a given start every
  repetition can only take its longest run (the character after a shorter run is of
  the class just repeated, and the pattern wants another one there), so a start either
  matches in one way or not at all; the starts are tried from left to right.
\<close>

definition matchOnAt :: "string \<Rightarrow> (string \<times> string \<times> string \<times> string) option" where
  "matchOnAt s =
     (let a1 = takeWhile isWordChar s; r1 = dropWhile isWordChar s
      in if a1 = [] \<or> r1 = [] \<or> hd r1 \<noteq> CHR ''.'' then None
         else let c1 = takeWhile isWordChar (tl r1);
                  r2 = dropWhile isSpace (dropWhile isWordChar (tl r1))
         in if c1 = [] \<or> r2 = [] \<or> hd r2 \<noteq> CHR ''='' then None
            else let r3 = dropWhile isSpace (tl r2);
                     a2 = takeWhile isWordChar r3; r4 = dropWhile isWordChar r3
            in if a2 = [] \<or> r4 = [] \<or> hd r4 \<noteq> CHR ''.'' then None
               else let c2 = takeWhile isWordChar (tl r4)
               in if c2 = [] then None else Some (a1, c1, a2, c2))"

fun matchOn :: "string \<Rightarrow> (string \<times> string \<times> string \<times> string) option" where
  "matchOn [] = None"
| "matchOn (c # cs) =
     (case matchOnAt (c # cs) of Some m \<Rightarrow> Some m | None \<Rightarrow> matchOn cs)"

text \<open>\<open>alias || tableName.charAt(0)\<close>.\<close>

definition aliasOf :: "string option \<Rightarrow> string \<Rightarrow> string" where
  "aliasOf tableAlias tn =
     (case tableAlias of
        Some a \<Rightarrow> if a \<noteq> [] then a else take 1 tn
      | None \<Rightarrow> take 1 tn)"

definition mergeRows :: "string \<Rightarrow> string \<Rightarrow> row \<Rightarrow> row \<Rightarrow> row" where
  "mergeRows tn jtn leftRow rightRow =
     foldl (\<lambda>joined (k, v). objSet (jtn @ ''.'' @ k) v joined)
       (foldl (\<lambda>joined (k, v). objSet (tn @ ''.'' @ k) v joined) [] leftRow)
       rightRow"

definition joinRows :: "string \<Rightarrow> string \<Rightarrow> string \<Rightarrow> string \<Rightarrow> row list \<Rightarrow> row list \<Rightarrow> row list" where
  "joinRows tn jtn leftJoinCol rightJoinCol leftRows rightRows =
     concat (map (\<lambda>leftRow.
       concat (map (\<lambda>rightRow.
         if strictEq (objGet leftRow leftJoinCol) (objGet rightRow rightJoinCol)
         then [mergeRows tn jtn leftRow rightRow] else []) rightRows)) leftRows)"

definition projectJoined :: "string list \<Rightarrow> row \<Rightarrow> row" where
  "projectJoined cols r =
     foldl (\<lambda>projected col.
              if includesStr col ''.'' then objSet col (objGet r col) projected
              else (case find (\<lambda>k. endsWith k (''.'' @ col)) (map fst r) of
                      Some matchingKey \<Rightarrow>
                        if matchingKey \<noteq> [] then objSet col (objGet r matchingKey) projected
                        else projected
                    | None \<Rightarrow> projected))
           [] cols"

definition executeJoin :: "string list \<Rightarrow> string \<Rightarrow> string option \<Rightarrow> join \<Rightarrow> condition option \<Rightarrow> db \<Rightarrow> (error + result) \<times> db" where
  "executeJoin cols tn tableAlias j whereClause st =
     (case getTable tn st of
        (Inl e, st1) \<Rightarrow> (Inl e, st1)
      | (Inr leftTable, st1) \<Rightarrow>
     (case getTable (joinTableName j) st1 of
        (Inl e, st2) \<Rightarrow> (Inl e, st2)
      | (Inr rightTable, st2) \<Rightarrow>
     (case getAll tn st2 of
        Inl e \<Rightarrow> (Inl e, st2)
      | Inr leftRows \<Rightarrow>
     (case getAll (joinTableName j) st2 of
        Inl e \<Rightarrow> (Inl e, st2)
      | Inr rightRows \<Rightarrow>
     (case matchOn (joinOn j) of
        None \<Rightarrow> (Inl (Error ''Invalid JOIN ON clause''), st2)
      | Some (leftAlias, leftCol, rightAlias, rightCol) \<Rightarrow>
          let leftJoinCol = (if leftAlias = aliasOf tableAlias tn then leftCol else rightCol);
              rightJoinCol = (if rightAlias = aliasOf (joinTableAlias j) (joinTableName j)
                              then rightCol else leftCol);
              joinedRows = joinRows tn (joinTableName j) leftJoinCol rightJoinCol
                             leftRows rightRows;
              res = (if \<not> isStar cols then map (projectJoined cols) joinedRows
                     else joinedRows)
          in (Inr (okResult\<lparr>rows := Some (map Some res), count := Some (length res)\<rparr>),
              st2))))))"

subsection \<open>The six statements\<close>

definition executeCreateTable :: "string \<Rightarrow> schema \<Rightarrow> db \<Rightarrow> (error + result) \<times> db" where
  "executeCreateTable tn sch st =
     (case createTableFunc tn sch st of
        (Inl e, st1) \<Rightarrow> (Inl e, st1)
      | (Inr md, st1) \<Rightarrow>
          (Inr (okResult\<lparr>message := Some (''Table '' @ quoted tn @ '' created successfully''),
                         table := Some md\<rparr>), st1))"

definition executeInsert :: "string \<Rightarrow> row \<Rightarrow> db \<Rightarrow> (error + result) \<times> db" where
  "executeInsert tn r st =
     (case getTable tn st of
        (Inl e, st1) \<Rightarrow> (Inl e, st1)
      | (Inr md, st1) \<Rightarrow>
     (case tableInsert tn md r st1 of
        (Inl e, st2) \<Rightarrow> (Inl e, st2)
      | (Inr inserted, st2) \<Rightarrow>
     (case rebuildIndexes tn st2 of
        (Inl e, st3) \<Rightarrow> (Inl e, st3)
      | (Inr u, st3) \<Rightarrow>
          (Inr (okResult\<lparr>message := Some (''Row inserted into '' @ quoted tn),
                         row := Some inserted\<rparr>), st3))))"

definition executeSelect :: "string list \<Rightarrow> string \<Rightarrow> string option \<Rightarrow> join option \<Rightarrow> condition option \<Rightarrow> db \<Rightarrow> (error + result) \<times> db" where
  "executeSelect cols tn tableAlias jn whereClause st =
     (case jn of
        Some j \<Rightarrow> executeJoin cols tn tableAlias j whereClause st
      | None \<Rightarrow>
     (case getTable tn st of
        (Inl e, st1) \<Rightarrow> (Inl e, st1)
      | (Inr md, st1) \<Rightarrow>
     (case getAll tn st1 of
        Inl e \<Rightarrow> (Inl e, st1)
      | Inr rs \<Rightarrow>
     (case (case whereClause of
              Some w \<Rightarrow> filterRows rs w tn st1
            | None \<Rightarrow> (Inr (map Some rs), st1)) of
        (Inl e, st2) \<Rightarrow> (Inl e, st2)
      | (Inr filtered, st2) \<Rightarrow>
     (case (if \<not> isStar cols then mapRows (projectRow cols) filtered else Inr filtered) of
        Inl e \<Rightarrow> (Inl e, st2)
      | Inr out \<Rightarrow>
          (Inr (okResult\<lparr>rows := Some out, count := Some (length out)\<rparr>), st2))))))"

definition executeUpdate :: "string \<Rightarrow> row \<Rightarrow> condition option \<Rightarrow> db \<Rightarrow> (error + result) \<times> db" where
  "executeUpdate tn updates whereClause st =
     (case getTable tn st of
        (Inl e, st1) \<Rightarrow> (Inl e, st1)
      | (Inr md, st1) \<Rightarrow>
     (case tableUpdate tn updates
             (case whereClause of
                Some w \<Rightarrow> Some (\<lambda>r. evaluateCondition r w)
              | None \<Rightarrow> None) st1 of
        (Inl e, st2) \<Rightarrow> (Inl e, st2)
      | (Inr n, st2) \<Rightarrow>
     (case rebuildIndexes tn st2 of
        (Inl e, st3) \<Rightarrow> (Inl e, st3)
      | (Inr u, st3) \<Rightarrow>
          (Inr (okResult\<lparr>message := Some (''Updated '' @ showNat n @ '' row(s)''),
                         count := Some n\<rparr>), st3))))"

definition executeDelete :: "string \<Rightarrow> condition option \<Rightarrow> db \<Rightarrow> (error + result) \<times> db" where
  "executeDelete tn whereClause st =
     (case getTable tn st of
        (Inl e, st1) \<Rightarrow> (Inl e, st1)
      | (Inr md, st1) \<Rightarrow>
     (case deleteRows tn
             (case whereClause of
                Some w \<Rightarrow> (\<lambda>r. evaluateCondition r w)
              | None \<Rightarrow> (\<lambda>r. Inr True)) st1 of
        (Inl e, st2) \<Rightarrow> (Inl e, st2)
      | (Inr n, st2) \<Rightarrow>
     (case rebuildIndexes tn st2 of
        (Inl e, st3) \<Rightarrow> (Inl e, st3)
      | (Inr u, st3) \<Rightarrow>
          (Inr (okResult\<lparr>message := Some (''Deleted '' @ showNat n @ '' row(s)''),
                         count := Some n\<rparr>), st3))))"

definition executeDropTable :: "string \<Rightarrow> db \<Rightarrow> (error + result) \<times> db" where
  "executeDropTable tn st =
     (case dropTable tn st of
        (Inl e, st1) \<Rightarrow> (Inl e, st1)
      | (Inr u, st1) \<Rightarrow>
          (Inr (okResult\<lparr>message := Some (''Table '' @ quoted tn @ '' dropped successfully'')\<rparr>),
           st1))"

fun execute :: "ast \<Rightarrow> db \<Rightarrow> (error + result) \<times> db" where
  "execute (CreateTableQ tn sch) st = executeCreateTable tn sch st"
| "execute (InsertQ tn r) st = executeInsert tn r st"
| "execute (SelectQ cols tn tableAlias jn whereClause) st =
     executeSelect cols tn tableAlias jn whereClause st"
| "execute (UpdateQ tn updates whereClause) st = executeUpdate tn updates whereClause st"
| "execute (DeleteQ tn whereClause) st = executeDelete tn whereClause st"
| "execute (DropTableQ tn) st = executeDropTable tn st"
| "execute (UnknownQ ty) st = (Inl (Error (''Unknown query type: '' @ ty)), st)"

section \<open>The entry point\<close>

text \<open>
  \<open>query\<close> parses, executes, and turns whatever either step throws into a failure
  result. The statement grammar of the parser is a cascade of regular expressions and
  is not embedded here: \<open>query\<close> takes the parser as the function \<open>parse\<close> from the
  text to the parsed query or the error it throws.
\<close>

fun errorMessage :: "error \<Rightarrow> string" where
  "errorMessage (Error m) = m"

definition failure :: "error \<Rightarrow> result" where
  "failure e = \<lparr>success = False, rows = None, count = None, message = None,
                error = Some (errorMessage e), row = None, table = None\<rparr>"

definition query :: "(string \<Rightarrow> error + ast) \<Rightarrow> string \<Rightarrow> db \<Rightarrow> result \<times> db" where
  "query parse sql st =
     (case parse sql of
        Inl e \<Rightarrow> (failure e, st)
      | Inr parsedQuery \<Rightarrow>
          (case execute parsedQuery st of
             (Inl e, st1) \<Rightarrow> (failure e, st1)
           | (Inr res, st1) \<Rightarrow> (res, st1)))"

section \<open>Example databases\<close>

definition emptyDb :: db where
  "emptyDb = \<lparr>metaFiles = Map.empty, dataFiles = Map.empty, indexFiles = Map.empty,
               indexes = Map.empty, tables = Map.empty,
               clock = (\<lambda>k. 1000 + k), reads = 0\<rparr>"

text \<open>\<open>CREATE TABLE users (id INTEGER PRIMARY KEY, name TEXT NOT NULL)\<close> as parsed.\<close>

definition usersSchema :: schema where
  "usersSchema =
     \<lparr>columns = [\<lparr>name = ''id'', ctype = ''INTEGER'',
                   constraints = [''PRIMARY_KEY'', ''NOT_NULL'']\<rparr>,
                  \<lparr>name = ''name'', ctype = ''TEXT'', constraints = [''NOT_NULL'']\<rparr>],
      primaryKey = Some ''id'', uniqueKeys = []\<rparr>"

text \<open>The metadata that creating the table at time 1000 stores.\<close>

definition usersMd :: metadata where
  "usersMd =
     \<lparr>columns = [\<lparr>name = ''id'', ctype = ''INTEGER'',
                   constraints = [''PRIMARY_KEY'', ''NOT_NULL'']\<rparr>,
                  \<lparr>name = ''name'', ctype = ''TEXT'', constraints = [''NOT_NULL'']\<rparr>],
      primaryKey = Some ''id'', uniqueKeys = [],
      tableName = ''users'', createdAt = 1000\<rparr>"

text \<open>
  The state after the CREATE TABLE on the empty database, and the states after
  \<open>INSERT INTO users (id, name) VALUES (5, 'Ann')\<close> and then
  \<open>INSERT INTO users (id, name) VALUES (6, 'Bob')\<close>. Each is the state the executor
  leaves, which is proved below.
\<close>

definition usersDb0 :: db where
  "usersDb0 =
     \<lparr>metaFiles = [''users'' \<mapsto> usersMd],
      dataFiles = [''users'' \<mapsto> []],
      indexFiles = [''users_id.idx.json'' \<mapsto>
         \<lparr>idxTableName = ''users'', idxColumnName = ''id'', entries = [],
          idxCreatedAt = 1001\<rparr>],
      indexes = [''users.id'' \<mapsto> []],
      tables = [''users'' \<mapsto> usersMd],
      clock = (\<lambda>k. 1000 + k), reads = 2\<rparr>"

definition usersDb1 :: db where
  "usersDb1 =
     \<lparr>metaFiles = [''users'' \<mapsto> usersMd],
      dataFiles = [''users'' \<mapsto> [[(''id'', JNum 5), (''name'', JStr ''Ann'')]]],
      indexFiles = [''users_id.idx.json'' \<mapsto>
         \<lparr>idxTableName = ''users'', idxColumnName = ''id'', entries = [(JNum 5, [0])],
          idxCreatedAt = 1002\<rparr>],
      indexes = [''users.id'' \<mapsto> [(JNum 5, [0])]],
      tables = [''users'' \<mapsto> usersMd],
      clock = (\<lambda>k. 1000 + k), reads = 3\<rparr>"


section \<open>Which fields a result populates\<close>

text \<open>Whether \<open>rows\<close>, \<open>count\<close> and \<open>message\<close> are set in a result.\<close>

definition populated :: "result \<Rightarrow> bool \<times> bool \<times> bool" where
  "populated r = (rows r \<noteq> None, count r \<noteq> None, message r \<noteq> None)"

text \<open>The same triple, as each statement kind sets it on success.\<close>

fun kindFields :: "ast \<Rightarrow> bool \<times> bool \<times> bool" where
  "kindFields (SelectQ cols tn tableAlias jn whereClause) = (True, True, False)"
| "kindFields (UpdateQ tn updates whereClause) = (False, True, True)"
| "kindFields (DeleteQ tn whereClause) = (False, True, True)"
| "kindFields (CreateTableQ tn sch) = (False, False, True)"
| "kindFields (InsertQ tn r) = (False, False, True)"
| "kindFields (DropTableQ tn) = (False, False, True)"
| "kindFields (UnknownQ ty) = (False, False, False)"

section \<open>Conditions the parser can produce\<close>



section \<open>The merge of a row with the assignments of an UPDATE\<close>


section \<open>States the program reaches\<close>

text \<open>Every cached table carries the metadata that is stored for it.\<close>

abbreviation cacheOk :: "db \<Rightarrow> bool" where
  "cacheOk st \<equiv> (\<forall>t m. tables st t = Some m \<longrightarrow> metaFiles st t = Some m)"

section \<open>Schemas as the parser builds them\<close>


text \<open>\<open>CREATE TABLE contacts (id INTEGER PRIMARY KEY, email TEXT UNIQUE)\<close> as parsed.\<close>

definition contactsSchema :: schema where
  "contactsSchema =
     \<lparr>columns = [\<lparr>name = ''id'', ctype = ''INTEGER'',
                   constraints = [''PRIMARY_KEY'', ''NOT_NULL'']\<rparr>,
                  \<lparr>name = ''email'', ctype = ''TEXT'', constraints = [''UNIQUE'']\<rparr>],
      primaryKey = Some ''id'', uniqueKeys = [''email'']\<rparr>"

definition contactsMd :: metadata where
  "contactsMd =
     \<lparr>columns = columns contactsSchema, primaryKey = Some ''id'', uniqueKeys = [''email''],
      tableName = ''contacts'', createdAt = 1000\<rparr>"

text \<open>
  The state after the CREATE TABLE on the empty database, and after
  \<open>INSERT INTO contacts (id) VALUES (1)\<close>: the stored email is \<open>null\<close>.
\<close>

definition contactsDb0 :: db where
  "contactsDb0 =
     \<lparr>metaFiles = [''contacts'' \<mapsto> contactsMd],
      dataFiles = [''contacts'' \<mapsto> []],
      indexFiles = [''contacts_id.idx.json'' \<mapsto>
           \<lparr>idxTableName = ''contacts'', idxColumnName = ''id'', entries = [],
            idxCreatedAt = 1001\<rparr>,
         ''contacts_email.idx.json'' \<mapsto>
           \<lparr>idxTableName = ''contacts'', idxColumnName = ''email'', entries = [],
            idxCreatedAt = 1002\<rparr>],
      indexes = [''contacts.id'' \<mapsto> [], ''contacts.email'' \<mapsto> []],
      tables = [''contacts'' \<mapsto> contactsMd],
      clock = (\<lambda>k. 1000 + k), reads = 3\<rparr>"

definition contactsDb1 :: db where
  "contactsDb1 =
     \<lparr>metaFiles = [''contacts'' \<mapsto> contactsMd],
      dataFiles = [''contacts'' \<mapsto> [[(''id'', JNum 1), (''email'', JNull)]]],
      indexFiles = [''contacts_id.idx.json'' \<mapsto>
           \<lparr>idxTableName = ''contacts'', idxColumnName = ''id'', entries = [(JNum 1, [0])],
            idxCreatedAt = 1003\<rparr>,
         ''contacts_email.idx.json'' \<mapsto>
           \<lparr>idxTableName = ''contacts'', idxColumnName = ''email'', entries = [],
            idxCreatedAt = 1004\<rparr>],
      indexes = [''contacts.id'' \<mapsto> [(JNum 1, [0])], ''contacts.email'' \<mapsto> []],
      tables = [''contacts'' \<mapsto> contactsMd],
      clock = (\<lambda>k. 1000 + k), reads = 5\<rparr>"

text \<open>
  \<open>CREATE TABLE members (id INTEGER PRIMARY KEY, email TEXT UNIQUE NOT NULL)\<close> as
  parsed, and the state after it on the empty database.
\<close>

definition membersSchema :: schema where
  "membersSchema =
     \<lparr>columns = [\<lparr>name = ''id'', ctype = ''INTEGER'',
                   constraints = [''PRIMARY_KEY'', ''NOT_NULL'']\<rparr>,
                  \<lparr>name = ''email'', ctype = ''TEXT'',
                   constraints = [''UNIQUE'', ''NOT_NULL'']\<rparr>],
      primaryKey = Some ''id'', uniqueKeys = [''email'']\<rparr>"

definition membersMd :: metadata where
  "membersMd =
     \<lparr>columns = columns membersSchema, primaryKey = Some ''id'', uniqueKeys = [''email''],
      tableName = ''members'', createdAt = 1000\<rparr>"

definition membersDb0 :: db where
  "membersDb0 =
     \<lparr>metaFiles = [''members'' \<mapsto> membersMd],
      dataFiles = [''members'' \<mapsto> []],
      indexFiles = [''members_id.idx.json'' \<mapsto>
           \<lparr>idxTableName = ''members'', idxColumnName = ''id'', entries = [],
            idxCreatedAt = 1001\<rparr>,
         ''members_email.idx.json'' \<mapsto>
           \<lparr>idxTableName = ''members'', idxColumnName = ''email'', entries = [],
            idxCreatedAt = 1002\<rparr>],
      indexes = [''members.id'' \<mapsto> [], ''members.email'' \<mapsto> []],
      tables = [''members'' \<mapsto> membersMd],
      clock = (\<lambda>k. 1000 + k), reads = 3\<rparr>"

text \<open>
  \<open>CREATE TABLE events (id DATE PRIMARY KEY)\<close> as parsed: \<open>DATE\<close> is none of the
  types that \<open>coerceType\<close> and \<open>validateType\<close> know, so a value is stored as it comes.
\<close>

definition eventsSchema :: schema where
  "eventsSchema =
     \<lparr>columns = [\<lparr>name = ''id'', ctype = ''DATE'',
                   constraints = [''PRIMARY_KEY'', ''NOT_NULL'']\<rparr>],
      primaryKey = Some ''id'', uniqueKeys = []\<rparr>"

definition eventsMd :: metadata where
  "eventsMd =
     \<lparr>columns = columns eventsSchema, primaryKey = Some ''id'', uniqueKeys = [],
      tableName = ''events'', createdAt = 1000\<rparr>"

text \<open>
  The state after the CREATE TABLE on the empty database, and after
  \<open>INSERT INTO events (id) VALUES (,)\<close>, whose only value is parsed from the empty
  text and is \<open>NaN\<close>: JSON has stored it as \<open>null\<close>.
\<close>

definition eventsDb0 :: db where
  "eventsDb0 =
     \<lparr>metaFiles = [''events'' \<mapsto> eventsMd],
      dataFiles = [''events'' \<mapsto> []],
      indexFiles = [''events_id.idx.json'' \<mapsto>
         \<lparr>idxTableName = ''events'', idxColumnName = ''id'', entries = [],
          idxCreatedAt = 1001\<rparr>],
      indexes = [''events.id'' \<mapsto> []],
      tables = [''events'' \<mapsto> eventsMd],
      clock = (\<lambda>k. 1000 + k), reads = 2\<rparr>"

definition eventsDb1 :: db where
  "eventsDb1 =
     \<lparr>metaFiles = [''events'' \<mapsto> eventsMd],
      dataFiles = [''events'' \<mapsto> [[(''id'', JNull)]]],
      indexFiles = [''events_id.idx.json'' \<mapsto>
         \<lparr>idxTableName = ''events'', idxColumnName = ''id'', entries = [],
          idxCreatedAt = 1002\<rparr>],
      indexes = [''events.id'' \<mapsto> []],
      tables = [''events'' \<mapsto> eventsMd],
      clock = (\<lambda>k. 1000 + k), reads = 3\<rparr>"

text \<open>
  \<open>CREATE TABLE orders (order_id INTEGER PRIMARY KEY, user_id INTEGER, amount INTEGER)\<close>
  beside the table \<open>users\<close>, with two orders of user 5.
\<close>

definition ordersSchema :: schema where
  "ordersSchema =
     \<lparr>columns = [\<lparr>name = ''order_id'', ctype = ''INTEGER'',
                   constraints = [''PRIMARY_KEY'', ''NOT_NULL'']\<rparr>,
                  \<lparr>name = ''user_id'', ctype = ''INTEGER'', constraints = []\<rparr>,
                  \<lparr>name = ''amount'', ctype = ''INTEGER'', constraints = []\<rparr>],
      primaryKey = Some ''order_id'', uniqueKeys = []\<rparr>"

definition ordersMd :: metadata where
  "ordersMd =
     \<lparr>columns = columns ordersSchema, primaryKey = Some ''order_id'', uniqueKeys = [],
      tableName = ''orders'', createdAt = 1003\<rparr>"

text \<open>
  The states after the CREATE TABLE on the state \<open>usersDb1\<close>, after
  \<open>INSERT INTO orders (order_id, user_id, amount) VALUES (101, 5, 1500)\<close>, and after
  \<open>INSERT INTO orders (order_id, user_id, amount) VALUES (102, 5, 25)\<close>.
\<close>

definition shopDb0 :: db where
  "shopDb0 =
     \<lparr>metaFiles = [''users'' \<mapsto> usersMd, ''orders'' \<mapsto> ordersMd],
      dataFiles = [''users'' \<mapsto> [[(''id'', JNum 5), (''name'', JStr ''Ann'')]],
         ''orders'' \<mapsto> []],
      indexFiles = [''users_id.idx.json'' \<mapsto>
           \<lparr>idxTableName = ''users'', idxColumnName = ''id'', entries = [(JNum 5, [0])],
            idxCreatedAt = 1002\<rparr>,
         ''orders_order_id.idx.json'' \<mapsto>
           \<lparr>idxTableName = ''orders'', idxColumnName = ''order_id'',
            entries = [], idxCreatedAt = 1004\<rparr>],
      indexes = [''users.id'' \<mapsto> [(JNum 5, [0])], ''orders.order_id'' \<mapsto> []],
      tables = [''users'' \<mapsto> usersMd, ''orders'' \<mapsto> ordersMd],
      clock = (\<lambda>k. 1000 + k), reads = 5\<rparr>"

definition shopDb1 :: db where
  "shopDb1 =
     \<lparr>metaFiles = [''users'' \<mapsto> usersMd, ''orders'' \<mapsto> ordersMd],
      dataFiles = [''users'' \<mapsto> [[(''id'', JNum 5), (''name'', JStr ''Ann'')]],
         ''orders'' \<mapsto>
           [[(''order_id'', JNum 101), (''user_id'', JNum 5), (''amount'', JNum 1500)]]],
      indexFiles = [''users_id.idx.json'' \<mapsto>
           \<lparr>idxTableName = ''users'', idxColumnName = ''id'', entries = [(JNum 5, [0])],
            idxCreatedAt = 1002\<rparr>,
         ''orders_order_id.idx.json'' \<mapsto>
           \<lparr>idxTableName = ''orders'', idxColumnName = ''order_id'',
            entries = [(JNum 101, [0])], idxCreatedAt = 1005\<rparr>],
      indexes = [''users.id'' \<mapsto> [(JNum 5, [0])],
         ''orders.order_id'' \<mapsto> [(JNum 101, [0])]],
      tables = [''users'' \<mapsto> usersMd, ''orders'' \<mapsto> ordersMd],
      clock = (\<lambda>k. 1000 + k), reads = 6\<rparr>"

definition shopDb :: db where
  "shopDb =
     \<lparr>metaFiles = [''users'' \<mapsto> usersMd, ''orders'' \<mapsto> ordersMd],
      dataFiles = [''users'' \<mapsto> [[(''id'', JNum 5), (''name'', JStr ''Ann'')]],
         ''orders'' \<mapsto>
           [[(''order_id'', JNum 101), (''user_id'', JNum 5), (''amount'', JNum 1500)],
            [(''order_id'', JNum 102), (''user_id'', JNum 5), (''amount'', JNum 25)]]],
      indexFiles = [''users_id.idx.json'' \<mapsto>
           \<lparr>idxTableName = ''users'', idxColumnName = ''id'', entries = [(JNum 5, [0])],
            idxCreatedAt = 1002\<rparr>,
         ''orders_order_id.idx.json'' \<mapsto>
           \<lparr>idxTableName = ''orders'', idxColumnName = ''order_id'',
            entries = [(JNum 101, [0]), (JNum 102, [1])], idxCreatedAt = 1006\<rparr>],
      indexes = [''users.id'' \<mapsto> [(JNum 5, [0])],
         ''orders.order_id'' \<mapsto> [(JNum 101, [0]), (JNum 102, [1])]],
      tables = [''users'' \<mapsto> usersMd, ''orders'' \<mapsto> ordersMd],
      clock = (\<lambda>k. 1000 + k), reads = 7\<rparr>"

text \<open>
  \<open>SELECT * FROM users u JOIN orders o ON u.id = o.user_id WHERE orders.amount > 50\<close>
  as parsed.
\<close>

definition joinWhereQuery :: ast where
  "joinWhereQuery =
     SelectQ [''*''] ''users'' (Some ''u'')
       (Some (Join ''orders'' (Some ''o'') ''u.id = o.user_id''))
       (Some (Comparison ''orders.amount'' ''>'' (JNum 50)))"

section \<open>Properties of the condition parser\<close>

lemma startsWith_includesStr: "startsWith s sub \<Longrightarrow> includesStr s sub"
  by (cases s) (auto simp: startsWith_def)

lemma includesStr_append: "includesStr (xs @ sub @ ys) sub"
proof (induction xs)
  case Nil
  have "startsWith (sub @ ys) sub" by (simp add: startsWith_def)
  then show ?case using startsWith_includesStr by simp
next
  case (Cons x xs)
  then show ?case by simp
qed

lemma splitAcc_cutAt:
  "sep \<noteq> [] \<Longrightarrow> splitAcc sep acc s =
     (rev acc @ fst (cutAt sep s)) #
       (if includesStr s sep then splitAcc sep [] (snd (cutAt sep s)) else [])"
proof (induction sep acc s rule: splitAcc.induct)
  case (1 sep acc)
  then show ?case by simp
next
  case (2 sep acc c cs)
  show ?case
  proof (cases "startsWith (c # cs) sep")
    case True
    with 2 show ?thesis by simp
  next
    case False
    with 2 show ?thesis by simp
  qed
qed

lemma splitStr_two:
  assumes "sep \<noteq> []" "includesStr s sep"
  shows "\<exists>more. splitStr s sep =
           fst (cutAt sep s) # fst (cutAt sep (snd (cutAt sep s))) # more"
proof -
  have a: "splitStr s sep = fst (cutAt sep s) # splitAcc sep [] (snd (cutAt sep s))"
    using assms by (simp add: splitStr_def splitAcc_cutAt [of sep "[]" s])
  have b: "splitAcc sep [] (snd (cutAt sep s)) =
      fst (cutAt sep (snd (cutAt sep s))) #
       (if includesStr (snd (cutAt sep s)) sep
        then splitAcc sep [] (snd (cutAt sep (snd (cutAt sep s)))) else [])"
    using assms(1) splitAcc_cutAt [of sep "[]" "snd (cutAt sep s)"] by simp
  show ?thesis using a b by simp
qed

lemma scanOperators_hit:
  assumes "find (includesStr s) ops = Some op" "[] \<notin> set ops"
  shows "scanOperators ops s =
     Inr (Comparison (trim (fst (cutAt op s))) op
            (parseValue (trim (fst (cutAt op (snd (cutAt op s)))))))"
  using assms
proof (induction ops)
  case Nil
  then show ?case by simp
next
  case (Cons a ops)
  show ?case
  proof (cases "includesStr s a")
    case True
    then have "op = a" using Cons.prems by simp
    moreover have "a \<noteq> []" using Cons.prems by auto
    ultimately show ?thesis using True splitStr_two [of a s] by auto
  next
    case False
    then show ?thesis using Cons by simp
  qed
qed

lemma scanOperators_miss:
  "find (includesStr s) ops = None \<Longrightarrow>
   scanOperators ops s = Inl (Error (''Invalid condition: '' @ s))"
  by (induction ops) (auto split: if_splits)

lemma includesStr_iff: "includesStr s sub \<longleftrightarrow> (\<exists>a b. s = a @ sub @ b)"
proof
  show "includesStr s sub \<Longrightarrow> \<exists>a b. s = a @ sub @ b"
  proof (induction s)
    case Nil
    then show ?case by simp
  next
    case (Cons c cs)
    show ?case
    proof (cases "startsWith (c # cs) sub")
      case True
      then have "c # cs = [] @ sub @ drop (length sub) (c # cs)"
        by (metis append_Nil append_take_drop_id startsWith_def)
      then show ?thesis by blast
    next
      case False
      then obtain a b where "cs = a @ sub @ b" using Cons by auto
      then have "c # cs = (c # a) @ sub @ b" by simp
      then show ?thesis by blast
    qed
  qed
next
  show "\<exists>a b. s = a @ sub @ b \<Longrightarrow> includesStr s sub"
    using includesStr_append by auto
qed

lemma includesStr_mono:
  assumes "includesStr x sub" shows "includesStr (a @ x @ b) sub"
proof -
  obtain u v where "x = u @ sub @ v" using assms includesStr_iff by blast
  then have "a @ x @ b = (a @ u) @ sub @ (v @ b)" by simp
  then show ?thesis using includesStr_append by metis
qed

lemma trim_part: "\<exists>a b. s = a @ trim s @ b"
proof -
  let ?t = "dropWhile isSpace s"
  have 1: "s = takeWhile isSpace s @ ?t" by simp
  let ?u = "dropWhile isSpace (rev ?t)"
  have "rev ?t = takeWhile isSpace (rev ?t) @ ?u" by simp
  then have "?t = rev ?u @ rev (takeWhile isSpace (rev ?t))"
    by (metis rev_append rev_rev_ident)
  then have "s = takeWhile isSpace s @ trim s @ rev (takeWhile isSpace (rev ?t))"
    using 1 by (metis trim_def)
  then show ?thesis by blast
qed

lemma splitKw_first: "\<exists>t u more. splitKw kw acc s = (rev acc @ t) # more \<and> s = t @ u"
proof (induction kw acc s rule: splitKw.induct)
  case (1 kw acc)
  then show ?case by simp
next
  case (2 kw acc c cs)
  show ?case
  proof (cases "matchKwAt kw (c # cs)")
    case None
    then obtain t u more where "splitKw kw (c # acc) cs = (rev (c # acc) @ t) # more" "cs = t @ u"
      using 2(1) by blast
    then have "splitKw kw acc (c # cs) = (rev acc @ (c # t)) # more \<and> c # cs = (c # t) @ u"
      using None by simp
    then show ?thesis by blast
  next
    case (Some rest)
    then have "splitKw kw acc (c # cs) = (rev acc @ []) # splitKw kw [] rest \<and> c # cs = [] @ (c # cs)"
      by simp
    then show ?thesis by blast
  qed
qed

lemma no_operator_part:
  assumes "\<forall>op \<in> set operators. \<not> includesStr w op"
  shows "\<exists>p more. splitKw kw [] w = p # more
           \<and> parseSimpleCondition (trim p) = Inl (Error (''Invalid condition: '' @ trim p))"
proof -
  obtain t u more where s: "splitKw kw [] w = t # more" and w: "w = t @ u"
    using splitKw_first [of kw "[]" w] by auto
  obtain a b where t: "t = a @ trim t @ b" using trim_part by blast
  have "\<forall>op \<in> set operators. \<not> includesStr (trim t) op"
  proof
    fix op assume o: "op \<in> set operators"
    show "\<not> includesStr (trim t) op"
    proof
      assume "includesStr (trim t) op"
      then have "includesStr (a @ trim t @ b) op" by (rule includesStr_mono)
      then have "includesStr t op" using t by simp
      then have "includesStr ([] @ t @ u) op" by (rule includesStr_mono)
      then show False using assms o w by simp
    qed
  qed
  then have "parseSimpleCondition (trim t) = Inl (Error (''Invalid condition: '' @ trim t))"
    using scanOperators_miss [of "trim t" operators]
    by (simp add: parseSimpleCondition_def find_None_iff)
  then show ?thesis using s by blast
qed

lemma parseWhereClause_no_operator:
  assumes "\<forall>op \<in> set operators. \<not> includesStr w op"
  shows "\<exists>part. parseWhereClause w = Inl (Error (''Invalid condition: '' @ part))"
proof -
  have k: "\<And>kw. \<exists>part. mapRows (\<lambda>p. parseSimpleCondition (trim p)) (splitKw kw [] w)
              = Inl (Error (''Invalid condition: '' @ part))"
  proof -
    fix kw
    obtain p more where "splitKw kw [] w = p # more"
      "parseSimpleCondition (trim p) = Inl (Error (''Invalid condition: '' @ trim p))"
      using no_operator_part [OF assms] by blast
    then show "\<exists>part. mapRows (\<lambda>p. parseSimpleCondition (trim p)) (splitKw kw [] w)
              = Inl (Error (''Invalid condition: '' @ part))"
      by simp
  qed
  have s: "parseSimpleCondition w = Inl (Error (''Invalid condition: '' @ w))"
    using assms scanOperators_miss [of w operators]
    by (simp add: parseSimpleCondition_def find_None_iff)
  show ?thesis
    using k [of "''AND''"] k [of "''OR''"] s
    by (auto simp: parseWhereClause_def)
qed

text \<open>
  Claim C7. \<open>parseSimpleCondition\<close> takes the first operator of the list
  \<open>>=, <=, !=, =, >, <\<close> that occurs in the condition: the column is the trimmed
  text before the operator's first occurrence, the value is parsed from the trimmed
  text between that occurrence and the next one (or the end). A condition that contains
  \<open>>=\<close>, \<open><=\<close> or \<open>!=\<close> is never parsed with the operator \<open>=\<close>, and a
  condition without any of the six operators raises \<open>Invalid condition\<close>; so does
  \<open>parseWhereClause\<close> on such a text, through which the error reaches \<open>query\<close>
  before anything is executed.
\<close>

theorem parseSimpleCondition_priority:
  "(case find (includesStr s) operators of
      None \<Rightarrow> parseSimpleCondition s = Inl (Error (''Invalid condition: '' @ s))
    | Some op \<Rightarrow>
        parseSimpleCondition s =
          Inr (Comparison (trim (fst (cutAt op s))) op
                 (parseValue (trim (fst (cutAt op (snd (cutAt op s))))))))
   \<and> (includesStr s ''>='' \<or> includesStr s ''<='' \<or> includesStr s ''!=''
        \<longrightarrow> (\<forall>c v. parseSimpleCondition s \<noteq> Inr (Comparison c ''='' v)))
   \<and> ((\<forall>op \<in> set operators. \<not> includesStr s op)
        \<longrightarrow> parseSimpleCondition s = Inl (Error (''Invalid condition: '' @ s))
            \<and> (\<exists>part. parseWhereClause s = Inl (Error (''Invalid condition: '' @ part))))"
proof -
  have ne: "[] \<notin> set operators" by (simp add: operators_def)
  have A: "(case find (includesStr s) operators of
      None \<Rightarrow> parseSimpleCondition s = Inl (Error (''Invalid condition: '' @ s))
    | Some op \<Rightarrow>
        parseSimpleCondition s =
          Inr (Comparison (trim (fst (cutAt op s))) op
                 (parseValue (trim (fst (cutAt op (snd (cutAt op s))))))))"
    using scanOperators_hit [OF _ ne, of s] scanOperators_miss [of s operators]
    by (auto simp: parseSimpleCondition_def split: option.splits)
  have B: "includesStr s ''>='' \<or> includesStr s ''<='' \<or> includesStr s ''!=''
        \<longrightarrow> (\<forall>c v. parseSimpleCondition s \<noteq> Inr (Comparison c ''='' v))"
  proof (intro impI allI)
    fix c v
    assume h: "includesStr s ''>='' \<or> includesStr s ''<='' \<or> includesStr s ''!=''"
    then have "find (includesStr s) operators = Some ''>=''
        \<or> find (includesStr s) operators = Some ''<=''
        \<or> find (includesStr s) operators = Some ''!=''"
      by (auto simp: operators_def)
    then show "parseSimpleCondition s \<noteq> Inr (Comparison c ''='' v)"
      using A by auto
  qed
  have C: "(\<forall>op \<in> set operators. \<not> includesStr s op)
        \<longrightarrow> parseSimpleCondition s = Inl (Error (''Invalid condition: '' @ s))
            \<and> (\<exists>part. parseWhereClause s = Inl (Error (''Invalid condition: '' @ part)))"
    using scanOperators_miss [of s operators] parseWhereClause_no_operator [of s]
    by (simp add: parseSimpleCondition_def find_None_iff)
  show ?thesis using A B C by blast
qed

theorem parseSimpleCondition_priority_witness:
  "parseSimpleCondition ''age >= 18'' = Inr (Comparison ''age'' ''>='' (JNum 18))
   \<and> parseSimpleCondition ''age >= 18'' \<noteq> Inr (Comparison ''age >'' ''='' (JNum 18))
   \<and> parseSimpleCondition ''active'' = Inl (Error ''Invalid condition: active'')
   \<and> (\<exists>part. parseWhereClause ''active'' = Inl (Error (''Invalid condition: '' @ part)))"
proof -
  have f1: "find (includesStr ''age >= 18'') operators = Some ''>=''"
    by (simp add: operators_def startsWith_def)
  have i1: "includesStr ''age >= 18'' ''>=''" by (simp add: startsWith_def)
  have v1: "Comparison (trim (fst (cutAt ''>='' ''age >= 18''))) ''>=''
                 (parseValue (trim (fst (cutAt ''>='' (snd (cutAt ''>='' ''age >= 18''))))))
            = Comparison ''age'' ''>='' (JNum 18)"
    by code_simp
  have n2: "\<forall>op \<in> set operators. \<not> includesStr ''active'' op"
    by (simp add: operators_def startsWith_def)
  show ?thesis
    using parseSimpleCondition_priority [of "''age >= 18''"]
          parseSimpleCondition_priority [of "''active''"] f1 i1 v1 n2
    by simp
qed

section \<open>Properties of the executor's results\<close>

lemma executeJoin_ok:
  "executeJoin cols tn ta j w st = (Inr r, st') \<Longrightarrow>
   success r \<and> error r = None \<and> message r = None \<and>
   (\<exists>rs. rows r = Some rs \<and> count r = Some (length rs))"
  by (auto simp: executeJoin_def okResult_def Let_def split: prod.splits sum.splits option.splits)

lemma executeSelect_ok:
  "executeSelect cols tn ta jn w st = (Inr r, st') \<Longrightarrow>
   success r \<and> error r = None \<and> message r = None \<and>
   (\<exists>rs. rows r = Some rs \<and> count r = Some (length rs))"
  by (cases jn) (auto simp: executeSelect_def okResult_def dest: executeJoin_ok
        split: prod.splits sum.splits if_splits)

lemma executeUpdate_ok:
  "executeUpdate tn u w st = (Inr r, st') \<Longrightarrow>
   success r \<and> error r = None \<and> rows r = None \<and> message r \<noteq> None \<and> count r \<noteq> None"
  by (auto simp: executeUpdate_def okResult_def split: prod.splits sum.splits)

lemma executeDelete_ok:
  "executeDelete tn w st = (Inr r, st') \<Longrightarrow>
   success r \<and> error r = None \<and> rows r = None \<and> message r \<noteq> None \<and> count r \<noteq> None"
  by (auto simp: executeDelete_def okResult_def split: prod.splits sum.splits)

lemma executeOther_ok:
  "executeCreateTable tn sch st = (Inr r, st') \<or> executeInsert tn x st = (Inr r, st')
     \<or> executeDropTable tn st = (Inr r, st') \<Longrightarrow>
   success r \<and> error r = None \<and> rows r = None \<and> message r \<noteq> None \<and> count r = None"
  by (auto simp: executeCreateTable_def executeInsert_def executeDropTable_def okResult_def
        split: prod.splits sum.splits)

lemma execute_shape:
  assumes "execute q st = (Inr r, st')"
  shows "success r \<and> error r = None \<and> populated r = kindFields q
         \<and> (\<forall>rs. rows r = Some rs \<longrightarrow> count r = Some (length rs))"
proof (cases q)
  case (SelectQ cols tn ta jn w)
  then show ?thesis using assms executeSelect_ok [of cols tn ta jn w st r st']
    by (auto simp: populated_def)
next
  case (UpdateQ tn u w)
  then show ?thesis using assms executeUpdate_ok [of tn u w st r st']
    by (auto simp: populated_def)
next
  case (DeleteQ tn w)
  then show ?thesis using assms executeDelete_ok [of tn w st r st']
    by (auto simp: populated_def)
next
  case (CreateTableQ tn sch)
  then show ?thesis using assms executeOther_ok [of tn sch st r st']
    by (auto simp: populated_def)
next
  case (InsertQ tn x)
  then show ?thesis using assms executeOther_ok [of tn _ st r st' x]
    by (auto simp: populated_def)
next
  case (DropTableQ tn)
  then show ?thesis using assms executeOther_ok [of tn _ st r st']
    by (auto simp: populated_def)
next
  case (UnknownQ ty)
  then show ?thesis using assms by simp
qed

text \<open>
  Claim C6, as amended. A successful result never has exactly one of \<open>rows\<close>,
  \<open>count\<close> and \<open>message\<close> for SELECT, UPDATE and DELETE: which of the three
  fields are set depends only on the kind of the statement. SELECT sets \<open>rows\<close> and
  \<open>count\<close> (the number of rows) and no message; UPDATE and DELETE set \<open>message\<close>
  and \<open>count\<close> and no rows; CREATE TABLE, INSERT and DROP TABLE set \<open>message\<close>
  only. No successful result has an \<open>error\<close>.
\<close>

theorem execute_fields:
  assumes "execute q st = (Inr r, st')"
  shows "success r \<and> error r = None \<and> populated r = kindFields q
         \<and> (\<forall>rs. rows r = Some rs \<longrightarrow> count r = Some (length rs))"
  using assms by (rule execute_shape)

theorem execute_fields_witness:
  "success (okResult\<lparr>rows := Some [Some [(''id'', JNum 5), (''name'', JStr ''Ann'')]],
                       count := Some 1\<rparr>)
   \<and> populated (okResult\<lparr>rows := Some [Some [(''id'', JNum 5), (''name'', JStr ''Ann'')]],
                          count := Some 1\<rparr>)
       = kindFields (SelectQ [''*''] ''users'' None None None)"
proof -
  have e: "execute (SelectQ [''*''] ''users'' None None None) usersDb1 =
     (Inr (okResult\<lparr>rows := Some [Some [(''id'', JNum 5), (''name'', JStr ''Ann'')]],
                     count := Some 1\<rparr>),
      snd (execute (SelectQ [''*''] ''users'' None None None) usersDb1))"
    by (rule prod_eqI) (code_simp, simp)
  show ?thesis using execute_fields [OF e] by simp
qed

text \<open>
  The claim as stated fails: a SELECT returns both \<open>rows\<close> and \<open>count\<close>, an UPDATE
  both \<open>message\<close> and \<open>count\<close>.
\<close>

theorem select_rows_and_count:
  "map_sum id populated (fst (execute (SelectQ [''*''] ''users'' None None None) usersDb1))
     = Inr (True, True, False)
   \<and> map_sum id populated (fst (execute (UpdateQ ''users'' [(''name'', JStr ''Bea'')] None)
        usersDb1)) = Inr (False, True, True)"
  by code_simp

text \<open>
  Claim C5. \<open>query\<close> always returns a result: an error of the parser or of the
  executor becomes the failure result with \<open>success = False\<close> and the error's
  message, and a result that comes without an error has \<open>success = True\<close> and no
  \<open>error\<close> field.
\<close>

theorem query_boundary:
  "(case parse sql of
      Inl e \<Rightarrow> query parse sql st = (failure e, st)
    | Inr q \<Rightarrow>
        (case execute q st of
           (Inl e, st1) \<Rightarrow> query parse sql st = (failure e, st1)
         | (Inr r, st1) \<Rightarrow> query parse sql st = (r, st1) \<and> success r \<and> error r = None))
   \<and> \<not> success (failure e) \<and> error (failure e) = Some (errorMessage e)"
proof -
  have "\<And>q r st1. execute q st = (Inr r, st1) \<Longrightarrow> success r \<and> error r = None"
    using execute_shape by blast
  then show ?thesis
    by (auto simp: query_def failure_def split: sum.splits prod.splits)
qed


theorem query_boundary_witness:
  "query (\<lambda>s. Inl (Error ''Unsupported SQL command: SHOW TABLES...'')) ''SHOW TABLES'' usersDb1
     = (failure (Error ''Unsupported SQL command: SHOW TABLES...''), usersDb1)
   \<and> \<not> success (failure (Error ''Unsupported SQL command: SHOW TABLES...''))
   \<and> error (failure (Error ''Unsupported SQL command: SHOW TABLES...''))
       = Some ''Unsupported SQL command: SHOW TABLES...''"
  using query_boundary [of "\<lambda>s. Inl (Error ''Unsupported SQL command: SHOW TABLES...'')"
          "''SHOW TABLES''" usersDb1 "Error ''Unsupported SQL command: SHOW TABLES...''"]
  by simp

section \<open>Properties of the index manager\<close>

lemma rebuildIndex_result:
  "rebuildIndex tn cn rs st =
     (indexOf cn rs,
      st\<lparr>reads := Suc (reads st),
         indexFiles := (indexFiles st)(getIndexPath tn cn \<mapsto>
            \<lparr>idxTableName = tn, idxColumnName = cn, entries = jsonEntries (indexOf cn rs),
             idxCreatedAt = clock st (reads st)\<rparr>),
         indexes := (indexes st)(cacheKey tn cn \<mapsto> indexOf cn rs)\<rparr>)"
  by (simp add: rebuildIndex_def buildIndex_def dropIndex_def dateNow_def Let_def)

text \<open>
  Claim C8, as amended. Two calls of \<open>rebuildIndex\<close> in succession on the same rows
  return the same index, leave the same index in the cache, and write files with the
  same table name, column name and entries; the files differ in \<open>createdAt\<close>, which is
  the clock reading of each call.
\<close>

theorem rebuildIndex_twice:
  "fst (rebuildIndex tn cn rs (snd (rebuildIndex tn cn rs st))) = fst (rebuildIndex tn cn rs st)
   \<and> indexes (snd (rebuildIndex tn cn rs (snd (rebuildIndex tn cn rs st)))) (cacheKey tn cn)
       = indexes (snd (rebuildIndex tn cn rs st)) (cacheKey tn cn)
   \<and> indexFiles (snd (rebuildIndex tn cn rs st)) (getIndexPath tn cn)
       = Some \<lparr>idxTableName = tn, idxColumnName = cn,
               entries = jsonEntries (indexOf cn rs), idxCreatedAt = clock st (reads st)\<rparr>
   \<and> indexFiles (snd (rebuildIndex tn cn rs (snd (rebuildIndex tn cn rs st)))) (getIndexPath tn cn)
       = Some \<lparr>idxTableName = tn, idxColumnName = cn,
               entries = jsonEntries (indexOf cn rs), idxCreatedAt = clock st (Suc (reads st))\<rparr>"
  by (simp add: rebuildIndex_result)

theorem rebuildIndex_twice_witness:
  "indexFiles (snd (rebuildIndex ''users'' ''id'' [[(''id'', JNum 5), (''name'', JStr ''Ann'')]]
       (snd (rebuildIndex ''users'' ''id'' [[(''id'', JNum 5), (''name'', JStr ''Ann'')]] usersDb1))))
     ''users_id.idx.json''
   = Some \<lparr>idxTableName = ''users'', idxColumnName = ''id'',
               entries = [(JNum 5, [0])], idxCreatedAt = 1004\<rparr>"
proof -
  have a: "getIndexPath ''users'' ''id'' = ''users_id.idx.json''" by code_simp
  have b: "jsonEntries (indexOf ''id'' [[(''id'', JNum 5), (''name'', JStr ''Ann'')]])
             = [(JNum 5, [0])]" by code_simp
  have c: "clock usersDb1 (Suc (reads usersDb1)) = 1004" by code_simp
  show ?thesis
    using rebuildIndex_twice [of "''users''" "''id''"
            "[[(''id'', JNum 5), (''name'', JStr ''Ann'')]]" usersDb1] a b c
    by simp
qed

text \<open>
  The persisted index data of the second call is not that of the first call when the
  clock has advanced between them.
\<close>

theorem rebuildIndex_timestamp_differs:
  "indexFiles (snd (rebuildIndex ''users'' ''id'' [[(''id'', JNum 5), (''name'', JStr ''Ann'')]]
       (snd (rebuildIndex ''users'' ''id'' [[(''id'', JNum 5), (''name'', JStr ''Ann'')]] usersDb1))))
     ''users_id.idx.json''
   \<noteq> indexFiles (snd (rebuildIndex ''users'' ''id'' [[(''id'', JNum 5), (''name'', JStr ''Ann'')]]
        usersDb1)) ''users_id.idx.json''"
  by code_simp

section \<open>Properties of the JSON round trip\<close>

lemma jsonValue_idem: "jsonValue (jsonValue v) = jsonValue v"
  by (cases v) simp_all

lemma jsonValue_not_undefined: "jsonValue v \<noteq> JUndefined"
  by (cases v) simp_all

lemma jsonRow_idem: "jsonRow (jsonRow r) = jsonRow r"
  by (induction r) (auto simp: jsonRow_def jsonValue_idem jsonValue_not_undefined)

lemma jsonRow_comp: "jsonRow \<circ> jsonRow = jsonRow"
  by (rule ext) (simp add: jsonRow_idem)


section \<open>The spread of two objects is their merge\<close>







section \<open>Properties of UPDATE\<close>






lemma rebuild_fold_keeps:
  "dataFiles (foldl (\<lambda>s uk. snd (rebuildIndex tn uk rs s)) st uks) = dataFiles st
   \<and> metaFiles (foldl (\<lambda>s uk. snd (rebuildIndex tn uk rs s)) st uks) = metaFiles st
   \<and> tables (foldl (\<lambda>s uk. snd (rebuildIndex tn uk rs s)) st uks) = tables st"
  by (induction uks arbitrary: st)
     (simp_all add: rebuildIndex_def buildIndex_def dropIndex_def dateNow_def Let_def)

lemma rebuildIndexes_ok:
  assumes "tableExists st tn"
  shows "\<exists>st'. rebuildIndexes tn st = (Inr (), st') \<and> dataFiles st' = dataFiles st
           \<and> metaFiles st' = metaFiles st \<and> tables st' = tables st"
proof -
  obtain md rs0 where m: "metaFiles st tn = Some md" and d: "dataFiles st tn = Some rs0"
    using assms by (auto simp: tableExists_def)
  have k: "\<And>s. dataFiles (snd (rebuildIndex tn x rs s)) = dataFiles s
       \<and> metaFiles (snd (rebuildIndex tn x rs s)) = metaFiles s
       \<and> tables (snd (rebuildIndex tn x rs s)) = tables s" for x rs
    by (simp add: rebuildIndex_def buildIndex_def dropIndex_def dateNow_def Let_def)
  show ?thesis
    using assms m d rebuild_fold_keeps k
    by (auto simp: rebuildIndexes_def getTableMetadata_def loadTableData_def Let_def
             split: option.splits)
qed





section \<open>Properties of INSERT\<close>



lemma tableInsert_Inl:
  "tableInsert tn md r st = (Inl e, st1) \<Longrightarrow> st1 = st"
  by (auto simp: tableInsert_def Let_def loadTableData_def insertRow_def saveTableData_def
        tableExists_def split: sum.splits option.splits if_splits prod.splits)





subsection \<open>Null values in key columns\<close>









lemma tableInsert_success:
  assumes "dataFiles st tn = Some stored" "metaFiles st tn \<noteq> None"
    and "validateRow md (prepareRow md r) = Inr True"
    and "validatePrimaryKey md (prepareRow md r) (map jsonRow stored) = Inr True"
    and "validateUniqueKeys md (prepareRow md r) (map jsonRow stored) = Inr True"
  shows "tableInsert tn md r st =
           (Inr (prepareRow md r),
            st\<lparr>dataFiles := (dataFiles st)(tn \<mapsto> map jsonRow stored @ [jsonRow (prepareRow md r)])\<rparr>)"
  using assms
  by (simp add: tableInsert_def Let_def loadTableData_def insertRow_def saveTableData_def
        tableExists_def jsonRow_idem jsonRow_comp)





section \<open>Insert, then select by primary key\<close>

lemma map_of_objSet: "map_of (objSet k v m) = (map_of m)(k \<mapsto> v)"
  by (induction m) (auto simp: fun_eq_iff)

lemma map_of_indexAdd:
  "map_of (indexAdd ix v i) k =
     (if k = v then Some ((case map_of ix v of None \<Rightarrow> [] | Some ps \<Rightarrow> ps) @ [i])
      else map_of ix k)"
  by (auto simp: indexAdd_def Let_def map_of_objSet split: option.splits)

lemma indexOf_snoc:
  "indexOf cn (rs @ [r]) =
     (if \<not> isNullish (objGet r cn) then indexAdd (indexOf cn rs) (objGet r cn) (length rs)
      else indexOf cn rs)"
  by (simp add: indexOf_def Let_def)











section \<open>The cached metadata is the stored metadata\<close>

text \<open>
  A table object is cached with the metadata read from, or written to, the metadata
  file, and nothing else writes that file: in every state the executor reaches from a
  state where each cached table carries its stored metadata, and so from the empty
  database, each cached table carries its stored metadata.
\<close>

lemma frame_getTable:
  "cacheOk st \<Longrightarrow> cacheOk (snd (getTable tn st))"
  by (auto simp: getTable_def getTableMetadata_def split: option.splits if_splits)

lemma frame_tableInsert:
  "tables (snd (tableInsert tn md r st)) = tables st
   \<and> metaFiles (snd (tableInsert tn md r st)) = metaFiles st"
  by (auto simp: tableInsert_def Let_def loadTableData_def insertRow_def saveTableData_def
        split: sum.splits option.splits if_splits prod.splits)

lemma frame_tableUpdate:
  "tables (snd (tableUpdate tn u c st)) = tables st
   \<and> metaFiles (snd (tableUpdate tn u c st)) = metaFiles st"
  by (auto simp: tableUpdate_def loadTableData_def saveTableData_def
        split: sum.splits option.splits if_splits prod.splits)

lemma frame_deleteRows:
  "tables (snd (deleteRows tn c st)) = tables st
   \<and> metaFiles (snd (deleteRows tn c st)) = metaFiles st"
  by (auto simp: deleteRows_def loadTableData_def saveTableData_def
        split: sum.splits option.splits if_splits prod.splits)

lemma frame_rebuildIndexes:
  "tables (snd (rebuildIndexes tn st)) = tables st
   \<and> metaFiles (snd (rebuildIndexes tn st)) = metaFiles st"
  using rebuild_fold_keeps
  by (auto simp: rebuildIndexes_def rebuildIndex_result Let_def
        split: sum.splits option.splits if_splits)

lemma frame_filterRows:
  "tables (snd (filterRows rs w tn st)) = tables st
   \<and> metaFiles (snd (filterRows rs w tn st)) = metaFiles st"
  by (auto simp: filterRows_def lookup_def loadIndex_def Let_def
        split: condition.splits sum.splits option.splits if_splits prod.splits)

lemma build_fold_keeps:
  "metaFiles (foldl (\<lambda>s uk. snd (buildIndex tn uk rs s)) st uks) = metaFiles st
   \<and> tables (foldl (\<lambda>s uk. snd (buildIndex tn uk rs s)) st uks) = tables st"
  by (induction uks arbitrary: st) (simp_all add: buildIndex_def dateNow_def Let_def)

lemma drop_fold_keeps:
  "metaFiles (foldl (\<lambda>s uk. dropIndex tn uk s) st uks) = metaFiles st
   \<and> tables (foldl (\<lambda>s uk. dropIndex tn uk s) st uks) = tables st
   \<and> dataFiles (foldl (\<lambda>s uk. dropIndex tn uk s) st uks) = dataFiles st"
  by (induction uks arbitrary: st) (simp_all add: dropIndex_def)

lemma frame_createTableFunc:
  "cacheOk st \<Longrightarrow> cacheOk (snd (createTableFunc tn sch st))"
  using build_fold_keeps
  by (auto simp: createTableFunc_def storageCreateTable_def createDefaultIndexes_def
        buildIndex_def dateNow_def Let_def split: prod.splits sum.splits option.splits if_splits)

lemma frame_dropTable:
  "cacheOk st \<Longrightarrow> cacheOk (snd (dropTable tn st))"
  using drop_fold_keeps
  by (auto simp: dropTable_def storageDropTable_def tableExists_def dropIndex_def Let_def
        split: prod.splits sum.splits option.splits if_splits)


lemma cacheOk_frame:
  "cacheOk st \<Longrightarrow> tables st' = tables st \<and> metaFiles st' = metaFiles st \<Longrightarrow> cacheOk st'"
  by simp

lemma cacheOk_executeInsert:
  assumes "cacheOk st" shows "cacheOk (snd (executeInsert tn r st))"
proof -
  obtain x st1 where g: "getTable tn st = (x, st1)" by (cases "getTable tn st")
  have c1: "cacheOk st1" using frame_getTable [OF assms, of tn] g by simp
  show ?thesis
  proof (cases x)
    case (Inl e)
    then show ?thesis using g c1 by (simp add: executeInsert_def)
  next
    case (Inr md)
    obtain y st2 where t: "tableInsert tn md r st1 = (y, st2)" by (cases "tableInsert tn md r st1")
    have c2: "cacheOk st2" using frame_tableInsert [of tn md r st1] t c1 by simp
    have c3: "cacheOk (snd (rebuildIndexes tn st2))"
      using frame_rebuildIndexes [of tn st2] c2 by simp
    show ?thesis using g Inr t c2 c3
      by (cases y) (auto simp: executeInsert_def split: prod.splits sum.splits)
  qed
qed

lemma cacheOk_executeUpdate:
  assumes "cacheOk st" shows "cacheOk (snd (executeUpdate tn u w st))"
proof -
  obtain x st1 where g: "getTable tn st = (x, st1)" by (cases "getTable tn st")
  have c1: "cacheOk st1" using frame_getTable [OF assms, of tn] g by simp
  show ?thesis
  proof (cases x)
    case (Inl e)
    then show ?thesis using g c1 by (simp add: executeUpdate_def)
  next
    case (Inr md)
    let ?c = "case w of Some c \<Rightarrow> Some (\<lambda>r. evaluateCondition r c) | None \<Rightarrow> None"
    obtain y st2 where t: "tableUpdate tn u ?c st1 = (y, st2)" by (cases "tableUpdate tn u ?c st1")
    have c2: "cacheOk st2" using frame_tableUpdate [of tn u ?c st1] t c1 by simp
    have c3: "cacheOk (snd (rebuildIndexes tn st2))"
      using frame_rebuildIndexes [of tn st2] c2 by simp
    show ?thesis using g Inr t c2 c3
      by (cases y) (auto simp: executeUpdate_def split: prod.splits sum.splits)
  qed
qed

lemma cacheOk_executeDelete:
  assumes "cacheOk st" shows "cacheOk (snd (executeDelete tn w st))"
proof -
  obtain x st1 where g: "getTable tn st = (x, st1)" by (cases "getTable tn st")
  have c1: "cacheOk st1" using frame_getTable [OF assms, of tn] g by simp
  show ?thesis
  proof (cases x)
    case (Inl e)
    then show ?thesis using g c1 by (simp add: executeDelete_def)
  next
    case (Inr md)
    let ?c = "case w of Some c \<Rightarrow> (\<lambda>r. evaluateCondition r c) | None \<Rightarrow> (\<lambda>r. Inr True)"
    obtain y st2 where t: "deleteRows tn ?c st1 = (y, st2)" by (cases "deleteRows tn ?c st1")
    have c2: "cacheOk st2" using frame_deleteRows [of tn ?c st1] t c1 by simp
    have c3: "cacheOk (snd (rebuildIndexes tn st2))"
      using frame_rebuildIndexes [of tn st2] c2 by simp
    show ?thesis using g Inr t c2 c3
      by (cases y) (auto simp: executeDelete_def split: prod.splits sum.splits)
  qed
qed

lemma cacheOk_executeJoin:
  assumes "cacheOk st" shows "cacheOk (snd (executeJoin cols tn ta j w st))"
proof -
  have c1: "cacheOk (snd (getTable tn st))" using frame_getTable [OF assms] .
  have c2: "cacheOk (snd (getTable (joinTableName j) (snd (getTable tn st))))"
    using frame_getTable [OF c1] .
  show ?thesis using c1 c2
    by (auto simp: executeJoin_def Let_def split: prod.splits sum.splits option.splits)
qed

lemma cacheOk_executeSelect:
  assumes "cacheOk st" shows "cacheOk (snd (executeSelect cols tn ta jn w st))"
proof (cases jn)
  case (Some j)
  then show ?thesis using cacheOk_executeJoin [OF assms] by (simp add: executeSelect_def)
next
  case None
  obtain x st1 where g: "getTable tn st = (x, st1)" by (cases "getTable tn st")
  have c1: "cacheOk st1" using frame_getTable [OF assms, of tn] g by simp
  show ?thesis
  proof (cases x)
    case (Inl e)
    then show ?thesis using None g c1 by (simp add: executeSelect_def)
  next
    case (Inr md)
    show ?thesis
    proof (cases "getAll tn st1")
      case (Inl e)
      then show ?thesis using None g \<open>x = Inr md\<close> c1 by (simp add: executeSelect_def)
    next
      case (Inr rs)
      let ?F = "case w of Some c \<Rightarrow> filterRows rs c tn st1 | None \<Rightarrow> (Inr (map Some rs), st1)"
      obtain y st2 where f: "?F = (y, st2)" by (cases ?F)
      have "cacheOk (snd ?F)" using frame_filterRows [of rs _ tn st1] c1
        by (cases w) simp_all
      then have c2: "cacheOk st2" using f by simp
      show ?thesis using None g \<open>x = Inr md\<close> Inr f c2
        by (cases y) (auto simp: executeSelect_def split: sum.splits)
    qed
  qed
qed

lemma cacheOk_execute:
  assumes "cacheOk st" shows "cacheOk (snd (execute q st))"
proof (cases q)
  case (CreateTableQ tn sch)
  then show ?thesis using frame_createTableFunc [OF assms, of tn sch]
    by (auto simp: executeCreateTable_def split: prod.splits sum.splits)
next
  case (InsertQ tn r)
  then show ?thesis using cacheOk_executeInsert [OF assms] by simp
next
  case (SelectQ cols tn ta jn w)
  then show ?thesis using cacheOk_executeSelect [OF assms] by simp
next
  case (UpdateQ tn u w)
  then show ?thesis using cacheOk_executeUpdate [OF assms] by simp
next
  case (DeleteQ tn w)
  then show ?thesis using cacheOk_executeDelete [OF assms] by simp
next
  case (DropTableQ tn)
  then show ?thesis using frame_dropTable [OF assms, of tn]
    by (auto simp: executeDropTable_def split: prod.splits sum.splits)
next
  case (UnknownQ ty)
  then show ?thesis using assms by simp
qed

lemma cacheOk_emptyDb: "cacheOk emptyDb"
  by (simp add: emptyDb_def)

lemma cacheOk_query:
  assumes "cacheOk st" shows "cacheOk (snd (query parse sql st))"
proof (cases "parse sql")
  case (Inl e)
  then show ?thesis using assms by (simp add: query_def)
next
  case (Inr q)
  then show ?thesis using cacheOk_execute [OF assms, of q]
    by (auto simp: query_def split: prod.splits sum.splits)
qed

section \<open>Index lookup against the full scan\<close>

text \<open>
  The rows the index gives for a value are the rows whose column holds that very value,
  in the order of the table, and none for \<open>null\<close>.
\<close>

lemma index_rows:
  "(\<forall>ps. map_of (indexOf cn rs) v = Some ps \<longrightarrow> (\<forall>i \<in> set ps. i < length rs))
   \<and> map (rowAt rs) (case map_of (indexOf cn rs) v of None \<Rightarrow> [] | Some ps \<Rightarrow> ps)
       = map Some (filter (\<lambda>r. objGet r cn = v \<and> \<not> isNullish v) rs)"
proof (induction rs rule: rev_induct)
  case Nil
  then show ?case by (simp add: indexOf_def)
next
  case (snoc r rs)
  let ?old = "case map_of (indexOf cn rs) v of None \<Rightarrow> [] | Some ps \<Rightarrow> ps"
  have bound: "\<forall>i \<in> set ?old. i < length rs"
    using snoc by (auto split: option.splits)
  have keep: "map (rowAt (rs @ [r])) ?old = map (rowAt rs) ?old"
    using bound by (auto simp: rowAt_def nth_append)
  have last: "rowAt (rs @ [r]) (length rs) = Some r" by (simp add: rowAt_def)
  show ?case
  proof (cases "\<not> isNullish (objGet r cn) \<and> objGet r cn = v")
    case True
    then have m: "map_of (indexOf cn (rs @ [r])) v = Some (?old @ [length rs])"
      by (auto simp: indexOf_snoc map_of_indexAdd)
    show ?thesis using m True bound keep last snoc by auto
  next
    case False
    then have m: "map_of (indexOf cn (rs @ [r])) v = map_of (indexOf cn rs) v"
      by (auto simp: indexOf_snoc map_of_indexAdd)
    have "\<not> (objGet r cn = v \<and> \<not> isNullish v)" using False by auto
    then show ?thesis using m bound keep snoc by (auto split: option.splits)
  qed
qed

text \<open>The full scan gives the rows whose column is loosely equal to the value.\<close>

lemma scanRows_equality:
  "scanRows (Comparison c ''='' v) rs = Inr (filter (\<lambda>r. looseEq (objGet r c) v) rs)"
  by (induction rs) (simp_all add: compareValues_def)

text \<open>
  So the two paths agree on a table where \<open>==\<close> with the literal holds for exactly
  the rows that hold the literal itself, which is the case when the literal and the
  column's values are of one type and are neither \<open>null\<close> nor \<open>NaN\<close>.
\<close>

lemma index_scan_agree:
  assumes "indexes st (cacheKey tn c) = Some (indexOf c rs)" "c \<noteq> []"
    and "\<forall>r \<in> set rs. looseEq (objGet r c) v \<longleftrightarrow> (objGet r c = v \<and> \<not> isNullish v)"
  shows "fst (filterRows rs (Comparison c ''='' v) tn st)
           = map_sum id (map Some) (scanRows (Comparison c ''='' v) rs)"
proof -
  have l: "lookup tn c v st =
      (Some (case map_of (indexOf c rs) v of None \<Rightarrow> [] | Some ps \<Rightarrow> ps), st)"
    using assms(1) by (simp add: lookup_def loadIndex_def)
  have f: "filter (\<lambda>r. objGet r c = v \<and> \<not> isNullish v) rs
            = filter (\<lambda>r. looseEq (objGet r c) v) rs"
    using assms(3) by (auto intro: filter_cong)
  show ?thesis
    using l assms(2) index_rows [of c rs v] f
    by (simp add: filterRows_def Let_def scanRows_equality)
qed

section \<open>The example databases are states of the program\<close>

lemma usersDb0_reached:
  "execute (CreateTableQ ''users'' usersSchema) emptyDb =
     (Inr (okResult\<lparr>message := Some (''Table '' @ quoted ''users'' @ '' created successfully''),
                     table := Some usersMd\<rparr>), usersDb0)"
proof -
  have ix: "indexOf ''id'' [] = []" by (simp add: indexOf_def)
  have path: "getIndexPath ''users'' ''id'' = ''users_id.idx.json''"
    "cacheKey ''users'' ''id'' = ''users.id''"
    by (simp_all add: getIndexPath_def cacheKey_def)
  show ?thesis
    by (simp add: executeCreateTable_def createTableFunc_def storageCreateTable_def
          tableExists_def emptyDb_def usersSchema_def usersMd_def usersDb0_def dateNow_def
          createDefaultIndexes_def buildIndex_def ix path jsonEntries_def Let_def)
qed

lemma insert_step:
  assumes "tables st tn = Some md" "metaFiles st tn = Some md" "dataFiles st tn = Some stored"
    and "map jsonRow stored = stored"
    and "validateRow md (prepareRow md r) = Inr True"
    and "validatePrimaryKey md (prepareRow md r) stored = Inr True"
    and "validateUniqueKeys md (prepareRow md r) stored = Inr True"
  shows "execute (InsertQ tn r) st =
     (Inr (okResult\<lparr>message := Some (''Row inserted into '' @ quoted tn),
                     row := Some (prepareRow md r)\<rparr>),
      snd (rebuildIndexes tn
        (st\<lparr>dataFiles := (dataFiles st)(tn \<mapsto> stored @ [jsonRow (prepareRow md r)])\<rparr>)))"
proof -
  let ?st2 = "st\<lparr>dataFiles := (dataFiles st)(tn \<mapsto> stored @ [jsonRow (prepareRow md r)])\<rparr>"
  have g: "getTable tn st = (Inr md, st)" using assms(1) by (simp add: getTable_def)
  have t: "tableInsert tn md r st = (Inr (prepareRow md r), ?st2)"
    using tableInsert_success [of st tn stored md r] assms by simp
  have ex: "tableExists ?st2 tn" using assms(2) by (simp add: tableExists_def)
  obtain st3 where rb: "rebuildIndexes tn ?st2 = (Inr (), st3)"
    using rebuildIndexes_ok [OF ex] by blast
  show ?thesis using g t rb by (simp add: executeInsert_def)
qed

lemma rebuildIndexes_snd:
  assumes "metaFiles st tn = Some md" "dataFiles st tn = Some stored"
    and "primaryKey md = Some pk" "pk \<noteq> []"
  shows "snd (rebuildIndexes tn st) =
     foldl (\<lambda>s uk. snd (rebuildIndex tn uk (map jsonRow stored) s))
       (snd (rebuildIndex tn pk (map jsonRow stored) st)) (uniqueKeys md)"
  using assms
  by (simp add: rebuildIndexes_def getTableMetadata_def loadTableData_def tableExists_def)

lemma usersDb1_reached:
  "execute (InsertQ ''users'' [(''id'', JNum 5), (''name'', JStr ''Ann'')]) usersDb0 =
     (Inr (okResult\<lparr>message := Some (''Row inserted into '' @ quoted ''users''),
                     row := Some [(''id'', JNum 5), (''name'', JStr ''Ann'')]\<rparr>), usersDb1)"
proof -
  let ?r = "[(''id'', JNum 5), (''name'', JStr ''Ann'')]"
  have p: "prepareRow usersMd ?r = ?r" by code_simp
  have vr: "validateRow usersMd ?r = Inr True" by code_simp
  have vp: "validatePrimaryKey usersMd ?r [] = Inr True" by code_simp
  have vu: "validateUniqueKeys usersMd ?r [] = Inr True" by code_simp
  have j: "jsonRow ?r = ?r" by code_simp
  have ix: "indexOf ''id'' [?r] = [(JNum 5, [0])]" by code_simp
  have path: "getIndexPath ''users'' ''id'' = ''users_id.idx.json''"
    "cacheKey ''users'' ''id'' = ''users.id''"
    by (simp_all add: getIndexPath_def cacheKey_def)
  have md: "primaryKey usersMd = Some ''id''" "uniqueKeys usersMd = []"
    by (simp_all add: usersMd_def)
  have s: "snd (rebuildIndexes ''users''
        (usersDb0\<lparr>dataFiles := (dataFiles usersDb0)(''users'' \<mapsto> [] @ [jsonRow (prepareRow usersMd ?r)])\<rparr>))
      = usersDb1"
    by (subst rebuildIndexes_snd [where md = usersMd and pk = "''id''" and stored = "[?r]"])
       (simp_all add: usersDb0_def usersDb1_def md p j ix path rebuildIndex_result jsonEntries_def)
  show ?thesis
    using insert_step [of usersDb0 "''users''" usersMd "[]" ?r] p vr vp vu s
    by (simp add: usersDb0_def)
qed


lemma contactsDb0_reached:
  "execute (CreateTableQ ''contacts'' contactsSchema) emptyDb =
     (Inr (okResult\<lparr>message := Some (''Table '' @ quoted ''contacts'' @ '' created successfully''),
                     table := Some contactsMd\<rparr>), contactsDb0)"
proof -
  have ix: "indexOf ''id'' [] = []" "indexOf ''email'' [] = []" by (simp_all add: indexOf_def)
  have path: "getIndexPath ''contacts'' ''id'' = ''contacts_id.idx.json''"
    "cacheKey ''contacts'' ''id'' = ''contacts.id''"
    "getIndexPath ''contacts'' ''email'' = ''contacts_email.idx.json''"
    "cacheKey ''contacts'' ''email'' = ''contacts.email''"
    by (simp_all add: getIndexPath_def cacheKey_def)
  show ?thesis
    by (simp add: executeCreateTable_def createTableFunc_def storageCreateTable_def
          tableExists_def emptyDb_def contactsSchema_def contactsMd_def contactsDb0_def
          dateNow_def createDefaultIndexes_def buildIndex_def ix path jsonEntries_def Let_def)
qed

lemma membersDb0_reached:
  "execute (CreateTableQ ''members'' membersSchema) emptyDb =
     (Inr (okResult\<lparr>message := Some (''Table '' @ quoted ''members'' @ '' created successfully''),
                     table := Some membersMd\<rparr>), membersDb0)"
proof -
  have ix: "indexOf ''id'' [] = []" "indexOf ''email'' [] = []" by (simp_all add: indexOf_def)
  have path: "getIndexPath ''members'' ''id'' = ''members_id.idx.json''"
    "cacheKey ''members'' ''id'' = ''members.id''"
    "getIndexPath ''members'' ''email'' = ''members_email.idx.json''"
    "cacheKey ''members'' ''email'' = ''members.email''"
    by (simp_all add: getIndexPath_def cacheKey_def)
  show ?thesis
    by (simp add: executeCreateTable_def createTableFunc_def storageCreateTable_def
          tableExists_def emptyDb_def membersSchema_def membersMd_def membersDb0_def
          dateNow_def createDefaultIndexes_def buildIndex_def ix path jsonEntries_def Let_def)
qed

lemma contactsDb1_reached:
  "execute (InsertQ ''contacts'' [(''id'', JNum 1)]) contactsDb0 =
     (Inr (okResult\<lparr>message := Some (''Row inserted into '' @ quoted ''contacts''),
                     row := Some [(''id'', JNum 1), (''email'', JNull)]\<rparr>), contactsDb1)"
proof -
  let ?r = "[(''id'', JNum 1)]"
  let ?p = "[(''id'', JNum 1), (''email'', JNull)]"
  have p: "prepareRow contactsMd ?r = ?p" by code_simp
  have vr: "validateRow contactsMd ?p = Inr True" by code_simp
  have vp: "validatePrimaryKey contactsMd ?p [] = Inr True" by code_simp
  have vu: "validateUniqueKeys contactsMd ?p [] = Inr True" by code_simp
  have j: "jsonRow ?p = ?p" by code_simp
  have ix: "indexOf ''id'' [?p] = [(JNum 1, [0])]" "indexOf ''email'' [?p] = []" by code_simp+
  have path: "getIndexPath ''contacts'' ''id'' = ''contacts_id.idx.json''"
    "cacheKey ''contacts'' ''id'' = ''contacts.id''"
    "getIndexPath ''contacts'' ''email'' = ''contacts_email.idx.json''"
    "cacheKey ''contacts'' ''email'' = ''contacts.email''"
    by (simp_all add: getIndexPath_def cacheKey_def)
  have md: "primaryKey contactsMd = Some ''id''" "uniqueKeys contactsMd = [''email'']"
    by (simp_all add: contactsMd_def)
  have s: "snd (rebuildIndexes ''contacts''
        (contactsDb0\<lparr>dataFiles := (dataFiles contactsDb0)(''contacts'' \<mapsto> [] @ [jsonRow (prepareRow contactsMd ?r)])\<rparr>))
      = contactsDb1"
    by (subst rebuildIndexes_snd [where md = contactsMd and pk = "''id''" and stored = "[?p]"])
       (auto simp: contactsDb0_def contactsDb1_def md p j ix path rebuildIndex_result
          jsonEntries_def fun_eq_iff)
  show ?thesis
    using insert_step [of contactsDb0 "''contacts''" contactsMd "[]" ?r] p vr vp vu s
    by (simp add: contactsDb0_def)
qed

lemma eventsDb0_reached:
  "execute (CreateTableQ ''events'' eventsSchema) emptyDb =
     (Inr (okResult\<lparr>message := Some (''Table '' @ quoted ''events'' @ '' created successfully''),
                     table := Some eventsMd\<rparr>), eventsDb0)"
proof -
  have ix: "indexOf ''id'' [] = []" by (simp add: indexOf_def)
  have path: "getIndexPath ''events'' ''id'' = ''events_id.idx.json''"
    "cacheKey ''events'' ''id'' = ''events.id''"
    by (simp_all add: getIndexPath_def cacheKey_def)
  show ?thesis
    by (simp add: executeCreateTable_def createTableFunc_def storageCreateTable_def
          tableExists_def emptyDb_def eventsSchema_def eventsMd_def eventsDb0_def
          dateNow_def createDefaultIndexes_def buildIndex_def ix path jsonEntries_def Let_def)
qed

lemma eventsDb1_reached:
  "execute (InsertQ ''events'' [(''id'', parseValue [])]) eventsDb0 =
     (Inr (okResult\<lparr>message := Some (''Row inserted into '' @ quoted ''events''),
                     row := Some [(''id'', JNaN)]\<rparr>), eventsDb1)"
proof -
  let ?r = "[(''id'', JNaN)]"
  have pv: "parseValue [] = JNaN" by code_simp
  have p: "prepareRow eventsMd ?r = ?r" by code_simp
  have vr: "validateRow eventsMd ?r = Inr True" by code_simp
  have vp: "validatePrimaryKey eventsMd ?r [] = Inr True" by code_simp
  have vu: "validateUniqueKeys eventsMd ?r [] = Inr True" by code_simp
  have j: "jsonRow ?r = [(''id'', JNull)]" "jsonRow [(''id'', JNull)] = [(''id'', JNull)]"
    by code_simp+
  have ix: "indexOf ''id'' [[(''id'', JNull)]] = []" by code_simp
  have path: "getIndexPath ''events'' ''id'' = ''events_id.idx.json''"
    "cacheKey ''events'' ''id'' = ''events.id''"
    by (simp_all add: getIndexPath_def cacheKey_def)
  have md: "primaryKey eventsMd = Some ''id''" "uniqueKeys eventsMd = []"
    by (simp_all add: eventsMd_def)
  have s: "snd (rebuildIndexes ''events''
        (eventsDb0\<lparr>dataFiles := (dataFiles eventsDb0)(''events'' \<mapsto> [] @ [jsonRow (prepareRow eventsMd ?r)])\<rparr>))
      = eventsDb1"
    by (subst rebuildIndexes_snd [where md = eventsMd and pk = "''id''"
          and stored = "[[(''id'', JNull)]]"])
       (simp_all add: eventsDb0_def eventsDb1_def md p j ix path rebuildIndex_result jsonEntries_def)
  show ?thesis
    using insert_step [of eventsDb0 "''events''" eventsMd "[]" ?r] p vr vp vu s
    by (simp add: eventsDb0_def pv)
qed

lemma shopDb0_reached:
  "execute (CreateTableQ ''orders'' ordersSchema) usersDb1 =
     (Inr (okResult\<lparr>message := Some (''Table '' @ quoted ''orders'' @ '' created successfully''),
                     table := Some ordersMd\<rparr>), shopDb0)"
proof -
  have ix: "indexOf ''order_id'' [] = []" by (simp add: indexOf_def)
  have path: "getIndexPath ''orders'' ''order_id'' = ''orders_order_id.idx.json''"
    "cacheKey ''orders'' ''order_id'' = ''orders.order_id''"
    by (simp_all add: getIndexPath_def cacheKey_def)
  show ?thesis
    by (simp add: executeCreateTable_def createTableFunc_def storageCreateTable_def
          tableExists_def usersDb1_def ordersSchema_def ordersMd_def shopDb0_def
          dateNow_def createDefaultIndexes_def buildIndex_def ix path jsonEntries_def Let_def)
qed

lemma shopDb1_reached:
  "execute (InsertQ ''orders''
       [(''order_id'', JNum 101), (''user_id'', JNum 5), (''amount'', JNum 1500)]) shopDb0 =
     (Inr (okResult\<lparr>message := Some (''Row inserted into '' @ quoted ''orders''),
             row := Some [(''order_id'', JNum 101), (''user_id'', JNum 5),
                          (''amount'', JNum 1500)]\<rparr>), shopDb1)"
proof -
  let ?r = "[(''order_id'', JNum 101), (''user_id'', JNum 5), (''amount'', JNum 1500)]"
  have p: "prepareRow ordersMd ?r = ?r" by code_simp
  have vr: "validateRow ordersMd ?r = Inr True" by code_simp
  have vp: "validatePrimaryKey ordersMd ?r [] = Inr True" by code_simp
  have vu: "validateUniqueKeys ordersMd ?r [] = Inr True" by code_simp
  have j: "jsonRow ?r = ?r" by code_simp
  have ix: "indexOf ''order_id'' [?r] = [(JNum 101, [0])]" by code_simp
  have path: "getIndexPath ''orders'' ''order_id'' = ''orders_order_id.idx.json''"
    "cacheKey ''orders'' ''order_id'' = ''orders.order_id''"
    by (simp_all add: getIndexPath_def cacheKey_def)
  have md: "primaryKey ordersMd = Some ''order_id''" "uniqueKeys ordersMd = []"
    by (simp_all add: ordersMd_def)
  have s: "snd (rebuildIndexes ''orders''
        (shopDb0\<lparr>dataFiles := (dataFiles shopDb0)(''orders'' \<mapsto> [] @ [jsonRow (prepareRow ordersMd ?r)])\<rparr>))
      = shopDb1"
    by (subst rebuildIndexes_snd [where md = ordersMd and pk = "''order_id''" and stored = "[?r]"])
       (simp_all add: shopDb0_def shopDb1_def md p j ix path rebuildIndex_result jsonEntries_def)
  show ?thesis
    using insert_step [of shopDb0 "''orders''" ordersMd "[]" ?r] p vr vp vu s
    by (simp add: shopDb0_def)
qed

lemma shopDb_reached:
  "execute (InsertQ ''orders''
       [(''order_id'', JNum 102), (''user_id'', JNum 5), (''amount'', JNum 25)]) shopDb1 =
     (Inr (okResult\<lparr>message := Some (''Row inserted into '' @ quoted ''orders''),
             row := Some [(''order_id'', JNum 102), (''user_id'', JNum 5),
                          (''amount'', JNum 25)]\<rparr>), shopDb)"
proof -
  let ?a = "[(''order_id'', JNum 101), (''user_id'', JNum 5), (''amount'', JNum 1500)]"
  let ?r = "[(''order_id'', JNum 102), (''user_id'', JNum 5), (''amount'', JNum 25)]"
  have p: "prepareRow ordersMd ?r = ?r" by code_simp
  have vr: "validateRow ordersMd ?r = Inr True" by code_simp
  have vp: "validatePrimaryKey ordersMd ?r [?a] = Inr True" by code_simp
  have vu: "validateUniqueKeys ordersMd ?r [?a] = Inr True" by code_simp
  have j: "jsonRow ?r = ?r" "jsonRow ?a = ?a" by code_simp+
  have ix: "indexOf ''order_id'' [?a, ?r] = [(JNum 101, [0]), (JNum 102, [1])]" by code_simp
  have path: "getIndexPath ''orders'' ''order_id'' = ''orders_order_id.idx.json''"
    "cacheKey ''orders'' ''order_id'' = ''orders.order_id''"
    by (simp_all add: getIndexPath_def cacheKey_def)
  have md: "primaryKey ordersMd = Some ''order_id''" "uniqueKeys ordersMd = []"
    by (simp_all add: ordersMd_def)
  have s: "snd (rebuildIndexes ''orders''
        (shopDb1\<lparr>dataFiles := (dataFiles shopDb1)(''orders'' \<mapsto> [?a] @ [jsonRow (prepareRow ordersMd ?r)])\<rparr>))
      = shopDb"
    by (subst rebuildIndexes_snd [where md = ordersMd and pk = "''order_id''" and stored = "[?a, ?r]"])
       (simp_all add: shopDb1_def shopDb_def md p j ix path rebuildIndex_result jsonEntries_def)
  show ?thesis
    using insert_step [of shopDb1 "''orders''" ordersMd "[?a]" ?r] p vr vp vu s j
    by (simp add: shopDb1_def)
qed

section \<open>The claims at the example databases\<close>


text \<open>
  Claim C1 fails on the code. The table \<open>users\<close> holds the row with \<open>id\<close> 5 and its
  primary key is indexed. For the predicate \<open>id = '5'\<close> the index is looked up with
  the string \<open>'5'\<close>, which is not the key \<open>5\<close>, and no row is returned; the full scan
  compares with \<open>==\<close> and returns the row. The same SELECT returns the row once the
  index is dropped. (By \<open>index_scan_agree\<close> the two paths do agree where \<open>==\<close> with
  the literal is the same as holding the literal.)
\<close>

theorem index_path_misses_coerced_match:
  "getAll ''users'' usersDb1 = Inr [[(''id'', JNum 5), (''name'', JStr ''Ann'')]]
   \<and> fst (filterRows [[(''id'', JNum 5), (''name'', JStr ''Ann'')]]
             (Comparison ''id'' ''='' (JStr ''5'')) ''users'' usersDb1) = Inr []
   \<and> scanRows (Comparison ''id'' ''='' (JStr ''5''))
        [[(''id'', JNum 5), (''name'', JStr ''Ann'')]]
       = Inr [[(''id'', JNum 5), (''name'', JStr ''Ann'')]]
   \<and> fst (execute (SelectQ [''*''] ''users'' None None
                     (Some (Comparison ''id'' ''='' (JStr ''5'')))) usersDb1)
       = Inr (okResult\<lparr>rows := Some [], count := Some 0\<rparr>)
   \<and> fst (execute (SelectQ [''*''] ''users'' None None
                     (Some (Comparison ''id'' ''='' (JStr ''5''))))
             (dropIndex ''users'' ''id'' usersDb1))
       = Inr (okResult\<lparr>rows := Some [Some [(''id'', JNum 5), (''name'', JStr ''Ann'')]],
                         count := Some 1\<rparr>)"
  by code_simp

text \<open>
  Claim C2 fails on the code. \<open>executeSelect\<close> hands a query with a JOIN to
  \<open>executeJoin\<close>, which never reads the WHERE clause: the result of
  \<open>... JOIN orders o ON u.id = o.user_id WHERE orders.amount > 50\<close> holds both merged
  rows, and the second one has the amount 25, for which the condition is false.
\<close>

theorem join_ignores_where:
  "fst (execute joinWhereQuery shopDb)
     = Inr (okResult\<lparr>rows := Some
              [Some [(''users.id'', JNum 5), (''users.name'', JStr ''Ann''),
                     (''orders.order_id'', JNum 101), (''orders.user_id'', JNum 5),
                     (''orders.amount'', JNum 1500)],
               Some [(''users.id'', JNum 5), (''users.name'', JStr ''Ann''),
                     (''orders.order_id'', JNum 102), (''orders.user_id'', JNum 5),
                     (''orders.amount'', JNum 25)]],
            count := Some 2\<rparr>)
   \<and> evaluateCondition
         [(''users.id'', JNum 5), (''users.name'', JStr ''Ann''),
          (''orders.order_id'', JNum 102), (''orders.user_id'', JNum 5),
          (''orders.amount'', JNum 25)]
         (Comparison ''orders.amount'' ''>'' (JNum 50)) = Inr False"
  by code_simp

end
